theory Spec2Isabelle
  imports Complex_Main "HOL-Library.AList"
begin

section \<open>Numbers and identifiers\<close>

text \<open>
  A JavaScript \<^verbatim>\<open>Number\<close> is modelled as an exact real number: sums and products are
  the mathematical ones, without the rounding of IEEE doubles. Document identifiers
  (\<^verbatim>\<open>ObjectId\<close>) are strings, as the controllers receive them. A timestamp
  (\<^verbatim>\<open>Date\<close>) is a natural number.
\<close>

type_synonym number = real
type_synonym oid = string
type_synonym date = nat

section \<open>Cart documents (models/Cart.ts, interfaces/Cart.ts)\<close>

text \<open>
  Field names follow the interfaces; a prefix tells the record apart where two
  interfaces use the same name (\<open>i_\<close> line item, \<open>c_\<close> cart, \<open>d_\<close> discount,
  \<open>t_\<close> tax, \<open>sm_\<close> shipping method). An optional field (\<^verbatim>\<open>field?:\<close>) is an
  \<open>option\<close>; \<^verbatim>\<open>if (this.field)\<close> on an optional object is the test for \<open>Some\<close>.
\<close>

datatype discount_type = Percentage | Fixed

record discount =
  d_code :: string
  d_type :: discount_type
  d_value :: number
  d_description :: string

record tax =
  t_rate :: number
  t_amount :: number

record variant_ref =
  v_id :: string
  v_attributes :: "(string \<times> string) list"

text \<open>
  \<^verbatim>\<open>ICartItem\<close>. \<open>i_id\<close> is the subdocument's \<^verbatim>\<open>_id\<close>, \<open>i_subtotal\<close> the line's
  \<^verbatim>\<open>subtotal\<close>.
\<close>

record cart_item =
  i_id :: oid
  i_product :: oid
  i_name :: string
  i_price :: number
  i_quantity :: number
  i_variant :: "variant_ref option"
  i_image :: "string option"
  i_sku :: "string option"
  i_subtotal :: number
  i_maxQuantity :: "number option"

record cart_shipping =
  sm_id :: string
  sm_name :: string
  sm_price :: number

record cart =
  c_customer :: "oid option"
  c_sessionId :: "string option"
  c_items :: "cart_item list"
  c_subtotal :: number
  c_discountCode :: "string option"
  c_discount :: "discount option"
  c_tax :: "tax option"
  c_shippingMethod :: "cart_shipping option"
  c_total :: number
  c_currency :: string

subsection \<open>calculateTotals\<close>

text \<open>
  \<^verbatim>\<open>CartSchema.methods.calculateTotals\<close>, as it changes the document in memory. The three
  local variables of the method are functions of the cart whose \<^verbatim>\<open>subtotal\<close> has
  already been assigned.
\<close>

definition discountAmount :: "cart \<Rightarrow> number" where
  "discountAmount c =
     (case c_discount c of
        None \<Rightarrow> 0
      | Some d \<Rightarrow>
          if d_type d = Percentage then c_subtotal c * d_value d
          else min (d_value d) (c_subtotal c))"

definition taxAmount :: "cart \<Rightarrow> number" where
  "taxAmount c =
     (case c_tax c of
        None \<Rightarrow> 0
      | Some t \<Rightarrow> (c_subtotal c - discountAmount c) * t_rate t)"

definition shippingCost :: "cart \<Rightarrow> number" where
  "shippingCost c =
     (case c_shippingMethod c of
        None \<Rightarrow> 0
      | Some m \<Rightarrow> sm_price m)"

definition calculateTotals :: "cart \<Rightarrow> cart" where
  "calculateTotals c =
     (let c1 = c\<lparr>c_subtotal := foldl (\<lambda>total item. total + i_subtotal item) 0 (c_items c)\<rparr>;
          discountAmount' = discountAmount c1;
          taxAmount' = taxAmount c1;
          c2 = c1\<lparr>c_tax := map_option (\<lambda>t. t\<lparr>t_amount := taxAmount'\<rparr>) (c_tax c1)\<rparr>;
          shippingCost' = shippingCost c2
      in c2\<lparr>c_total := c_subtotal c2 - discountAmount' + taxAmount' + shippingCost'\<rparr>)"

text \<open>\<^verbatim>\<open>clearCart\<close>, which sets the totals itself.\<close>

definition clearCart :: "cart \<Rightarrow> cart" where
  "clearCart c =
     c\<lparr>c_items := [], c_subtotal := 0, c_discount := None, c_discountCode := None,
       c_tax := None, c_shippingMethod := None, c_total := 0\<rparr>"

section \<open>Product documents (models/Product.ts)\<close>

record product_variant =
  pv_id :: oid
  pv_sku :: string
  pv_price :: number
  pv_inventory :: number
  pv_attributes :: "(string \<times> string) list"

record product =
  p_name :: string
  p_sku :: "string option"
  p_price :: number
  p_images :: "string list"
  p_isActive :: bool
  p_inventory :: number
  p_variants :: "product_variant list"
  p_hasVariants :: bool

text \<open>\<^verbatim>\<open>Array.prototype.findIndex\<close>, with \<open>None\<close> for \<^verbatim>\<open>-1\<close>.\<close>

fun findIndex :: "('a \<Rightarrow> bool) \<Rightarrow> 'a list \<Rightarrow> nat option" where
  "findIndex P [] = None"
| "findIndex P (x # xs) =
     (if P x then Some 0 else map_option Suc (findIndex P xs))"

section \<open>The methods of a cart (models/Cart.ts)\<close>











section \<open>Order documents (models/Order.ts, interfaces/Order.ts)\<close>

datatype order_status = Pending | Processing | Shipped | Delivered | Cancelled | Refunded

datatype payment_status =
  PaymentPending | PaymentProcessing | PaymentCompleted | PaymentRefunded | PaymentFailed

record address =
  fullName :: string
  addressLine1 :: string
  addressLine2 :: "string option"
  city :: string
  state :: string
  postalCode :: string
  country :: string
  phone :: "string option"

record order_item =
  oi_product :: oid
  oi_name :: string
  oi_price :: number
  oi_quantity :: number
  oi_variant :: "variant_ref option"
  oi_image :: "string option"
  oi_sku :: "string option"
  oi_subtotal :: number

record shipping_method =
  osm_name :: string
  osm_carrier :: string
  osm_price :: number
  osm_estimatedDelivery :: "(number \<times> number) option"

record payment =
  pay_method :: string
  pay_status :: payment_status
  pay_transactionId :: "string option"
  pay_amount :: number
  pay_currency :: string
  pay_paidAt :: "date option"

record status_entry =
  h_status :: order_status
  h_timestamp :: date
  h_note :: "string option"

record order =
  o_orderNumber :: string
  o_customer :: oid
  o_email :: string
  o_items :: "order_item list"
  o_billingAddress :: address
  o_shippingAddress :: address
  o_shippingMethod :: shipping_method
  o_payment :: payment
  o_subtotal :: number
  o_shippingCost :: number
  o_discount :: "discount option"
  o_tax :: "tax list"
  o_total :: number
  o_currency :: string
  o_status :: order_status
  o_statusHistory :: "status_entry list"
  o_notes :: "string option"

section \<open>The database and the errors\<close>

text \<open>
  The three collections, each a list of documents keyed by \<^verbatim>\<open>_id\<close>;
  \<^verbatim>\<open>Model.findById\<close> is \<open>map_of\<close>, a write of a document is \<open>AList.update\<close>.
\<close>

record db =
  products :: "(oid \<times> product) list"
  carts :: "(oid \<times> cart) list"
  orders :: "(oid \<times> order) list"

text \<open>
  Every \<^verbatim>\<open>throw\<close> of the controllers is a constructor, named after its message; the
  interpolated values of the message are its arguments. The last four are thrown by
  the libraries: a schema validator or a \<^verbatim>\<open>pre('validate')\<close> hook that rejects a
  \<^verbatim>\<open>save\<close> (\<open>ValidationError\<close>), a string that is no \<^verbatim>\<open>ObjectId\<close> given to
  \<^verbatim>\<open>findById\<close> (\<open>CastError\<close>), a second document with the same value of a unique
  index (\<open>DuplicateKeyError\<close>) and a property read on \<^verbatim>\<open>undefined\<close>
  (\<open>TypeError\<close>).
\<close>

datatype error =
    Invalid_cart_ID
  | No_cart_found string
  | Authentication_required
  | Cart_does_not_belong_to_this_user
  | Cannot_create_order_with_empty_cart
  | Product_not_found oid
  | Product_is_no_longer_available string
  | Variant_not_found_for_product string
  | Not_enough_inventory string number
  | Invalid_order_ID
  | Invalid_status
  | No_order_found string
  | Payment_intent_ID_is_required
  | Order_ID_is_required
  | Payment_not_successful string
  | Order_not_found string
  | Not_authorized_to_access_this_order
  | Failed_to_confirm_payment
  | Missing_Stripe_signature
  | Order_has_no_payment_transaction
  | Order_is_already_refunded
  | Failed_to_create_refund
  | ValidationError string
  | CastError string
  | DuplicateKeyError string
  | TypeError

text \<open>
  The HTTP status of the response the error handler (middleware/error-handler.ts) sends
  for a thrown error: the \<^verbatim>\<open>statusCode\<close> of the error's class (400 for a
  \<^verbatim>\<open>BadRequestError\<close>, 404 for a \<^verbatim>\<open>NotFoundError\<close>), 400 for a
  \<^verbatim>\<open>ValidationError\<close>, 404 for a \<^verbatim>\<open>CastError\<close>, 409 for a duplicate key and 500
  otherwise.
\<close>

fun statusCode :: "error \<Rightarrow> nat" where
  "statusCode (No_cart_found _) = 404"
| "statusCode (Product_not_found _) = 404"
| "statusCode (Variant_not_found_for_product _) = 404"
| "statusCode (No_order_found _) = 404"
| "statusCode (Order_not_found _) = 404"
| "statusCode (CastError _) = 404"
| "statusCode (DuplicateKeyError _) = 409"
| "statusCode TypeError = 500"
| "statusCode _ = 400"

text \<open>
  \<^verbatim>\<open>mongoose.Types.ObjectId.isValid\<close> on a string: 24 hexadecimal digits, or any 12
  characters (the library's rule; the library is not part of the repository).
\<close>

definition isHex :: "char \<Rightarrow> bool" where
  "isHex ch = (ch \<in> set ''0123456789abcdefABCDEF'')"

definition isValid :: "string \<Rightarrow> bool" where
  "isValid x = ((length x = 24 \<and> list_all isHex x) \<or> length x = 12)"

section \<open>Inventory of a line\<close>

text \<open>
  \<^verbatim>\<open>item.variant && item.variant.id\<close>: the variant a line names, when it names one
  (an empty string is falsy).
\<close>

definition named_variant :: "variant_ref option \<Rightarrow> string option" where
  "named_variant v =
     (case v of
        None \<Rightarrow> None
      | Some r \<Rightarrow> if v_id r = [] then None else Some (v_id r))"

text \<open>
  The inventory the check reads for a line (\<^verbatim>\<open>createOrder\<close>, "Check inventory"):
  the variant's when the line names a variant, the product's otherwise.
\<close>

definition line_inventory :: "product \<Rightarrow> cart_item \<Rightarrow> error + number" where
  "line_inventory product item =
     (case named_variant (i_variant item) of
        Some vid \<Rightarrow>
          (case find (\<lambda>v. pv_id v = vid) (p_variants product) of
             None \<Rightarrow> Inl (Variant_not_found_for_product (p_name product))
           | Some variant \<Rightarrow> Inr (pv_inventory variant))
      | None \<Rightarrow> Inr (p_inventory product))"

text \<open>
  The change that the update of the inventory and its restoration make to the loaded
  product document: \<open>delta\<close> is
  added to the variant's inventory when the line names a variant that the product has,
  to nothing when it names one the product lacks, and to the product's inventory
  otherwise. \<^verbatim>\<open>createOrder\<close> subtracts the quantity, \<^verbatim>\<open>updateOrderStatus\<close> adds it.
\<close>

definition adjust_inventory :: "variant_ref option \<Rightarrow> number \<Rightarrow> product \<Rightarrow> product" where
  "adjust_inventory v delta product =
     (case named_variant v of
        Some vid \<Rightarrow>
          (case findIndex (\<lambda>w. pv_id w = vid) (p_variants product) of
             None \<Rightarrow> product
           | Some variantIndex \<Rightarrow>
               product\<lparr>p_variants :=
                 (p_variants product)[variantIndex :=
                    (p_variants product ! variantIndex)
                      \<lparr>pv_inventory := pv_inventory (p_variants product ! variantIndex) + delta\<rparr>]\<rparr>)
      | None \<Rightarrow> product\<lparr>p_inventory := p_inventory product + delta\<rparr>)"

text \<open>
  \<^verbatim>\<open>product.save()\<close>. The schema's validators \<^verbatim>\<open>min: [0, 'Inventory cannot be negative']\<close>
  on the product's and on every variant's inventory run on the document in memory,
  before the write. The write sets the paths that were modified, here the one inventory
  that \<open>adjust_inventory\<close> changed, in the stored document.
\<close>

definition inventory_valid :: "product \<Rightarrow> bool" where
  "inventory_valid p = (0 \<le> p_inventory p \<and> list_all (\<lambda>v. 0 \<le> pv_inventory v) (p_variants p))"

definition write_inventory :: "variant_ref option \<Rightarrow> product \<Rightarrow> product \<Rightarrow> product" where
  "write_inventory v p stored =
     (case named_variant v of
        Some vid \<Rightarrow>
          (case findIndex (\<lambda>w. pv_id w = vid) (p_variants p) of
             None \<Rightarrow> stored
           | Some variantIndex \<Rightarrow>
               stored\<lparr>p_variants :=
                 (p_variants stored)[variantIndex :=
                    (p_variants stored ! variantIndex)
                      \<lparr>pv_inventory := pv_inventory (p_variants p ! variantIndex)\<rparr>]\<rparr>)
      | None \<Rightarrow> stored\<lparr>p_inventory := p_inventory p\<rparr>)"

definition save_product :: "oid \<Rightarrow> variant_ref option \<Rightarrow> product \<Rightarrow> db \<Rightarrow> error option \<times> db" where
  "save_product pid v p s =
     (if \<not> inventory_valid p then (Some (ValidationError ''Inventory cannot be negative''), s)
      else
        (case map_of (products s) pid of
           None \<Rightarrow> (None, s)
         | Some stored \<Rightarrow>
             (None, s\<lparr>products := AList.update pid (write_inventory v p stored) (products s)\<rparr>)))"

section \<open>createOrder (controllers/orderController.ts)\<close>

record user =
  userId :: string
  email :: string
  role :: string

text \<open>
  The request: \<^verbatim>\<open>req.user\<close> and the five fields read from \<^verbatim>\<open>req.body\<close>.
  \<^verbatim>\<open>shippingMethod\<close> is optional because the controller reads its properties without
  a check.
\<close>

record create_order_request =
  r_user :: "user option"
  r_cartId :: string
  r_shippingAddress :: address
  r_paymentMethod :: string
  r_shippingMethod :: "shipping_method option"
  r_notes :: "string option"

text \<open>"Check inventory for all items": the first failing line decides the error.\<close>

fun check_inventory :: "db \<Rightarrow> cart_item list \<Rightarrow> error option" where
  "check_inventory s [] = None"
| "check_inventory s (item # rest) =
     (case map_of (products s) (i_product item) of
        None \<Rightarrow> Some (Product_not_found (i_product item))
      | Some product \<Rightarrow>
          if \<not> p_isActive product then Some (Product_is_no_longer_available (p_name product))
          else
            (case line_inventory product item of
               Inl e \<Rightarrow> Some e
             | Inr inventory \<Rightarrow>
                 if inventory < i_quantity item
                 then Some (Not_enough_inventory (p_name product) inventory)
                 else check_inventory s rest))"

text \<open>"Create order items from cart items", with the line subtotal added at creation.\<close>

definition order_item_of :: "cart_item \<Rightarrow> order_item" where
  "order_item_of item =
     \<lparr>oi_product = i_product item, oi_name = i_name item, oi_price = i_price item,
      oi_quantity = i_quantity item, oi_variant = i_variant item, oi_image = i_image item,
      oi_sku = i_sku item, oi_subtotal = i_price item * i_quantity item\<rparr>"

text \<open>
  The document given to \<^verbatim>\<open>Order.create\<close>. The cart's \<^verbatim>\<open>tax\<close> object is stored in the
  order's array of taxes (as its only entry); \<^verbatim>\<open>status\<close> and \<^verbatim>\<open>statusHistory\<close> take
  the schema's defaults. \<open>orderNumber\<close> is the result of
  \<^verbatim>\<open>Order.generateOrderNumber\<close>, which only reads the collection.
\<close>

definition new_order :: "string \<Rightarrow> user \<Rightarrow> create_order_request \<Rightarrow> shipping_method \<Rightarrow> cart \<Rightarrow> order" where
  "new_order orderNumber u req shippingMethod cart =
     \<lparr>o_orderNumber = orderNumber,
      o_customer = userId u,
      o_email = email u,
      o_items = map order_item_of (c_items cart),
      o_billingAddress = r_shippingAddress req,
      o_shippingAddress = r_shippingAddress req,
      o_shippingMethod =
        \<lparr>osm_name = osm_name shippingMethod, osm_carrier = osm_carrier shippingMethod,
         osm_price = osm_price shippingMethod,
         osm_estimatedDelivery = osm_estimatedDelivery shippingMethod\<rparr>,
      o_payment =
        \<lparr>pay_method = r_paymentMethod req, pay_status = PaymentPending,
         pay_transactionId = None, pay_amount = c_total cart, pay_currency = ''USD'',
         pay_paidAt = None\<rparr>,
      o_subtotal = c_subtotal cart,
      o_shippingCost = osm_price shippingMethod,
      o_discount = c_discount cart,
      o_tax = (case c_tax cart of None \<Rightarrow> [] | Some t \<Rightarrow> [t]),
      o_total = c_total cart,
      o_currency = ''USD'',
      o_status = Pending,
      o_statusHistory = [],
      o_notes = r_notes req\<rparr>"

text \<open>
  \<^verbatim>\<open>Order.create\<close>: the unique indexes on \<^verbatim>\<open>_id\<close> and \<^verbatim>\<open>orderNumber\<close>, then the
  \<^verbatim>\<open>pre('save')\<close> hook of a new document, which records the first status, then the
  insertion. \<open>new_id\<close> is the \<^verbatim>\<open>_id\<close> the library generates. The validators and
  setters of the order schema are left out: a validator can only reject the document,
  before anything is written, and a setter (\<^verbatim>\<open>trim\<close>, \<^verbatim>\<open>lowercase\<close>) changes a string
  in the same way wherever it is stored.
\<close>

definition Order_create :: "oid \<Rightarrow> date \<Rightarrow> order \<Rightarrow> db \<Rightarrow> (error + order) \<times> db" where
  "Order_create new_id now doc s =
     (if new_id \<in> set (map fst (orders s)) then (Inl (DuplicateKeyError ''_id''), s)
      else if o_orderNumber doc \<in> set (map (o_orderNumber \<circ> snd) (orders s))
      then (Inl (DuplicateKeyError ''orderNumber''), s)
      else
        (let order = doc\<lparr>o_statusHistory := o_statusHistory doc @
                 [\<lparr>h_status = o_status doc, h_timestamp = now, h_note = Some ''Order created''\<rparr>]\<rparr>
         in (Inr order, s\<lparr>orders := AList.update new_id order (orders s)\<rparr>)))"

text \<open>
  "Update inventory for all items": each line loads its product, subtracts the quantity
  and saves; a product that is gone is skipped; a rejected save ends the request.
\<close>

fun update_inventory :: "cart_item list \<Rightarrow> db \<Rightarrow> error option \<times> db" where
  "update_inventory [] s = (None, s)"
| "update_inventory (item # rest) s =
     (case map_of (products s) (i_product item) of
        None \<Rightarrow> update_inventory rest s
      | Some product \<Rightarrow>
          (case save_product (i_product item) (i_variant item)
                  (adjust_inventory (i_variant item) (- i_quantity item) product) s of
             (Some e, s') \<Rightarrow> (Some e, s')
           | (None, s') \<Rightarrow> update_inventory rest s'))"

text \<open>
  \<^verbatim>\<open>cart.clearCart()\<close> with its \<^verbatim>\<open>save\<close>: the \<^verbatim>\<open>pre('validate')\<close> hook of the cart
  schema rejects a cart with neither customer nor session.
\<close>

definition save_cart :: "oid \<Rightarrow> cart \<Rightarrow> db \<Rightarrow> error option \<times> db" where
  "save_cart cid c s =
     (if c_customer c = None \<and> (c_sessionId c = None \<or> c_sessionId c = Some [])
      then (Some (ValidationError ''Either customer or sessionId must be provided''), s)
      else (None, s\<lparr>carts := AList.update cid c (carts s)\<rparr>))"

text \<open>
  The steps of \<^verbatim>\<open>createOrder\<close> after the checks have passed: create the order, update
  the inventory, clear the cart, answer with the order.
\<close>

definition place_order :: "oid \<Rightarrow> string \<Rightarrow> date \<Rightarrow> user \<Rightarrow> create_order_request \<Rightarrow> cart \<Rightarrow> db \<Rightarrow> (error + order) \<times> db" where
  "place_order new_id orderNumber now u req cart s =
     (case r_shippingMethod req of
        None \<Rightarrow> (Inl TypeError, s)
      | Some shippingMethod \<Rightarrow>
          (case Order_create new_id now (new_order orderNumber u req shippingMethod cart) s of
             (Inl e, s1) \<Rightarrow> (Inl e, s1)
           | (Inr order, s1) \<Rightarrow>
               (case update_inventory (c_items cart) s1 of
                  (Some e, s2) \<Rightarrow> (Inl e, s2)
                | (None, s2) \<Rightarrow>
                    (case save_cart (r_cartId req) (clearCart cart) s2 of
                       (Some e, s3) \<Rightarrow> (Inl e, s3)
                     | (None, s3) \<Rightarrow> (Inr order, s3)))))"

definition createOrder :: "oid \<Rightarrow> string \<Rightarrow> date \<Rightarrow> create_order_request \<Rightarrow> db \<Rightarrow> (error + order) \<times> db" where
  "createOrder new_id orderNumber now req s =
     (if \<not> isValid (r_cartId req) then (Inl Invalid_cart_ID, s)
      else
        (case map_of (carts s) (r_cartId req) of
           None \<Rightarrow> (Inl (No_cart_found (r_cartId req)), s)
         | Some cart \<Rightarrow>
             (case r_user req of
                None \<Rightarrow> (Inl Authentication_required, s)
              | Some u \<Rightarrow>
                  if c_customer cart \<noteq> None \<and> c_customer cart \<noteq> Some (userId u)
                  then (Inl Cart_does_not_belong_to_this_user, s)
                  else if c_items cart = [] then (Inl Cannot_create_order_with_empty_cart, s)
                  else
                    (case check_inventory s (c_items cart) of
                       Some e \<Rightarrow> (Inl e, s)
                     | None \<Rightarrow> place_order new_id orderNumber now u req cart s))))"

subsection \<open>The requests of createOrder in flight\<close>

text \<open>
  The server runs one request at a time between two \<^verbatim>\<open>await\<close>s, and another request
  may run while one waits. A request of \<^verbatim>\<open>createOrder\<close> in flight is at one of these
  points, with its local variables: arrived; in the check loop, with the lines still to
  check; past the checks, about to create the order; in the update loop about to load
  the product of a line; in the update loop with the loaded product changed in memory,
  about to save it; finished, with its answer. \<open>checkout_call\<close> is a request together
  with the values generated for it.
\<close>

record checkout_call =
  k_new_id :: oid
  k_orderNumber :: string
  k_now :: date
  k_request :: create_order_request

datatype checkout =
    Start
  | Checking user cart "cart_item list"
  | Creating user cart
  | Loading order cart "cart_item list"
  | Saving order cart cart_item product "cart_item list"
  | Finished "error + order"

text \<open>
  One turn of a request: the code from one \<^verbatim>\<open>await\<close> to the next, with the one database
  operation awaited. \<open>Checking\<close> with no line left waits for the order number;
  \<open>Loading\<close> with no line left clears the cart and answers.
\<close>

fun step :: "checkout_call \<Rightarrow> checkout \<Rightarrow> db \<Rightarrow> checkout \<times> db" where
  "step k Start s =
     (if \<not> isValid (r_cartId (k_request k)) then (Finished (Inl Invalid_cart_ID), s)
      else
        (case map_of (carts s) (r_cartId (k_request k)) of
           None \<Rightarrow> (Finished (Inl (No_cart_found (r_cartId (k_request k)))), s)
         | Some cart \<Rightarrow>
             (case r_user (k_request k) of
                None \<Rightarrow> (Finished (Inl Authentication_required), s)
              | Some u \<Rightarrow>
                  if c_customer cart \<noteq> None \<and> c_customer cart \<noteq> Some (userId u)
                  then (Finished (Inl Cart_does_not_belong_to_this_user), s)
                  else if c_items cart = []
                  then (Finished (Inl Cannot_create_order_with_empty_cart), s)
                  else (Checking u cart (c_items cart), s))))"
| "step k (Checking u cart []) s = (Creating u cart, s)"
| "step k (Checking u cart (item # rest)) s =
     (case map_of (products s) (i_product item) of
        None \<Rightarrow> (Finished (Inl (Product_not_found (i_product item))), s)
      | Some product \<Rightarrow>
          if \<not> p_isActive product
          then (Finished (Inl (Product_is_no_longer_available (p_name product))), s)
          else
            (case line_inventory product item of
               Inl e \<Rightarrow> (Finished (Inl e), s)
             | Inr inventory \<Rightarrow>
                 if inventory < i_quantity item
                 then (Finished (Inl (Not_enough_inventory (p_name product) inventory)), s)
                 else (Checking u cart rest, s)))"
| "step k (Creating u cart) s =
     (case r_shippingMethod (k_request k) of
        None \<Rightarrow> (Finished (Inl TypeError), s)
      | Some shippingMethod \<Rightarrow>
          (case Order_create (k_new_id k) (k_now k)
                  (new_order (k_orderNumber k) u (k_request k) shippingMethod cart) s of
             (Inl e, s1) \<Rightarrow> (Finished (Inl e), s1)
           | (Inr order, s1) \<Rightarrow> (Loading order cart (c_items cart), s1)))"
| "step k (Loading order cart (item # rest)) s =
     (case map_of (products s) (i_product item) of
        None \<Rightarrow> (Loading order cart rest, s)
      | Some product \<Rightarrow>
          (Saving order cart item
             (adjust_inventory (i_variant item) (- i_quantity item) product) rest, s))"
| "step k (Saving order cart item product rest) s =
     (case save_product (i_product item) (i_variant item) product s of
        (Some e, s') \<Rightarrow> (Finished (Inl e), s')
      | (None, s') \<Rightarrow> (Loading order cart rest, s'))"
| "step k (Loading order cart []) s =
     (case save_cart (r_cartId (k_request k)) (clearCart cart) s of
        (Some e, s') \<Rightarrow> (Finished (Inl e), s')
      | (None, s') \<Rightarrow> (Finished (Inr order), s'))"
| "step k (Finished r) s = (Finished r, s)"

text \<open>A request running alone for \<open>n\<close> turns.\<close>

fun steps :: "nat \<Rightarrow> checkout_call \<Rightarrow> checkout \<times> db \<Rightarrow> checkout \<times> db" where
  "steps 0 k x = x"
| "steps (Suc n) k (c, s) = steps n k (step k c s)"

text \<open>Two requests, \<open>A\<close> and \<open>B\<close>, taking turns in a given order.\<close>

datatype turn = A | B

fun run :: "turn list \<Rightarrow> checkout_call \<Rightarrow> checkout_call \<Rightarrow> checkout \<times> checkout \<times> db \<Rightarrow> checkout \<times> checkout \<times> db" where
  "run [] ka kb x = x"
| "run (A # turns) ka kb (a, b, s) = (case step ka a s of (a', s') \<Rightarrow> run turns ka kb (a', b, s'))"
| "run (B # turns) ka kb (a, b, s) = (case step kb b s of (b', s') \<Rightarrow> run turns ka kb (a, b', s'))"

section \<open>updateOrderStatus\<close>

text \<open>
  \<^verbatim>\<open>order.save()\<close> of a loaded order: the \<^verbatim>\<open>pre('save')\<close> hook appends a history entry
  when the status differs from the loaded one (\<^verbatim>\<open>isModified('status')\<close>).
\<close>

definition save_order :: "date \<Rightarrow> oid \<Rightarrow> order \<Rightarrow> order \<Rightarrow> db \<Rightarrow> order \<times> db" where
  "save_order now oid loaded order s =
     (let order' =
            (if o_status order \<noteq> o_status loaded
             then order\<lparr>o_statusHistory := o_statusHistory order @
                    [\<lparr>h_status = o_status order, h_timestamp = now, h_note = None\<rparr>]\<rparr>
             else order)
      in (order', s\<lparr>orders := AList.update oid order' (orders s)\<rparr>))"

definition validStatuses :: "(string \<times> order_status) list" where
  "validStatuses =
     [(''pending'', Pending), (''processing'', Processing), (''shipped'', Shipped),
      (''delivered'', Delivered), (''cancelled'', Cancelled), (''refunded'', Refunded)]"

text \<open>"If order is cancelled, restore inventory": the loop over the order's lines.\<close>

fun restore_inventory :: "order_item list \<Rightarrow> db \<Rightarrow> error option \<times> db" where
  "restore_inventory [] s = (None, s)"
| "restore_inventory (item # rest) s =
     (case map_of (products s) (oi_product item) of
        None \<Rightarrow> restore_inventory rest s
      | Some product \<Rightarrow>
          (case save_product (oi_product item) (oi_variant item)
                  (adjust_inventory (oi_variant item) (oi_quantity item) product) s of
             (Some e, s') \<Rightarrow> (Some e, s')
           | (None, s') \<Rightarrow> restore_inventory rest s'))"

text \<open>
  \<open>status\<close> is the string of the request body; the value of \<open>validStatuses\<close> it names
  is assigned to the order before the test that guards the restoration reads
  \<^verbatim>\<open>order.status\<close>.
\<close>

definition updateOrderStatus :: "date \<Rightarrow> string \<Rightarrow> string \<Rightarrow> db \<Rightarrow> (error + order) \<times> db" where
  "updateOrderStatus now oid status s =
     (if \<not> isValid oid then (Inl Invalid_order_ID, s)
      else
        (case map_of validStatuses status of
           None \<Rightarrow> (Inl Invalid_status, s)
         | Some status' \<Rightarrow>
             (case map_of (orders s) oid of
                None \<Rightarrow> (Inl (No_order_found oid), s)
              | Some loaded \<Rightarrow>
                  (let order = loaded\<lparr>o_status := status'\<rparr> in
                   (case (if status' = Cancelled \<and> o_status order \<noteq> Cancelled
                          then restore_inventory (o_items order) s else (None, s)) of
                      (Some e, s1) \<Rightarrow> (Inl e, s1)
                    | (None, s1) \<Rightarrow>
                        (case save_order now oid loaded order s1 of
                           (order', s2) \<Rightarrow> (Inr order', s2)))))))"

section \<open>The payment controller (controllers/paymentController.ts)\<close>

text \<open>
  The payment provider is outside the repository: its answers are arguments.
  \<open>getPaymentIntent\<close> gives the status of a payment intent (\<open>None\<close> when the client
  throws), \<open>constructWebhookEvent\<close> the event of a payload whose signature verifies
  (\<open>None\<close> when verification throws), \<open>stripeRefund\<close> the identifier of the refund
  made (\<open>None\<close> when the client throws). A request field that the controller tests with
  \<^verbatim>\<open>!field\<close> is a string, empty when the field is missing. The confirmation e-mail
  is sent inside its own \<^verbatim>\<open>try\<close>/\<^verbatim>\<open>catch\<close> and changes no document.
\<close>

subsection \<open>confirmPayment\<close>

record confirm_request =
  cf_user :: "user option"
  cf_paymentIntentId :: string
  cf_orderId :: string

text \<open>
  Every error raised inside the \<^verbatim>\<open>try\<close> that is neither a \<^verbatim>\<open>BadRequestError\<close> nor a
  \<^verbatim>\<open>NotFoundError\<close> (the provider's, the cast of the order id) is replaced by
  \<open>Failed_to_confirm_payment\<close>. A success carries the message of the response.
\<close>

definition confirmPayment :: "(string \<Rightarrow> string option) \<Rightarrow> date \<Rightarrow> confirm_request \<Rightarrow> db \<Rightarrow> (error + string \<times> order) \<times> db" where
  "confirmPayment getPaymentIntent now req s =
     (if cf_paymentIntentId req = [] then (Inl Payment_intent_ID_is_required, s)
      else if cf_orderId req = [] then (Inl Order_ID_is_required, s)
      else
        (case getPaymentIntent (cf_paymentIntentId req) of
           None \<Rightarrow> (Inl Failed_to_confirm_payment, s)
         | Some status \<Rightarrow>
             if status \<noteq> ''succeeded'' then (Inl (Payment_not_successful status), s)
             else if \<not> isValid (cf_orderId req) then (Inl Failed_to_confirm_payment, s)
             else
               (case map_of (orders s) (cf_orderId req) of
                  None \<Rightarrow> (Inl (Order_not_found (cf_orderId req)), s)
                | Some loaded \<Rightarrow>
                    (case cf_user req of
                       None \<Rightarrow> (Inl Authentication_required, s)
                     | Some u \<Rightarrow>
                         if o_customer loaded \<noteq> userId u
                         then (Inl Not_authorized_to_access_this_order, s)
                         else if pay_status (o_payment loaded) = PaymentCompleted
                         then (Inr (''Order is already paid'', loaded), s)
                         else
                           (case save_order now (cf_orderId req) loaded
                                   (loaded\<lparr>o_payment := (o_payment loaded)
                                              \<lparr>pay_status := PaymentCompleted,
                                               pay_transactionId := Some (cf_paymentIntentId req),
                                               pay_paidAt := Some now\<rparr>,
                                           o_status := Processing\<rparr>) s of
                              (order, s') \<Rightarrow>
                                (Inr (''Payment confirmed successfully'', order), s'))))))"

subsection \<open>handleWebhook\<close>

text \<open>
  The fields of a verified event that the handler reads: its type, the identifier of
  \<^verbatim>\<open>event.data.object\<close>, the \<^verbatim>\<open>metadata.orderId\<close> of a payment intent and the
  \<^verbatim>\<open>payment_intent\<close> of a charge.
\<close>

record event =
  e_type :: string
  e_id :: string
  e_orderId :: "string option"
  e_payment_intent :: string

record webhook_request =
  w_signature :: string
  w_body :: string

text \<open>The two responses the handler sends itself.\<close>

datatype webhook_response =
    Received \<comment> \<open>200, \<^verbatim>\<open>{ received: true }\<close>\<close>
  | Webhook_processing_failed \<comment> \<open>400, \<^verbatim>\<open>{ success: false, error: 'Webhook processing failed' }\<close>\<close>

fun response_status :: "webhook_response \<Rightarrow> nat" where
  "response_status Received = 200"
| "response_status Webhook_processing_failed = 400"

text \<open>
  \<^verbatim>\<open>Order.findById\<close> on a string taken from an event or a request without the
  \<^verbatim>\<open>isValid\<close> test: the cast of a string that is no identifier throws.
\<close>

definition Order_findById :: "string \<Rightarrow> db \<Rightarrow> error + order option" where
  "Order_findById oid s =
     (if isValid oid then Inr (map_of (orders s) oid) else Inl (CastError oid))"

text \<open>The order a payment-intent event is about, when its metadata names one.\<close>

definition event_order :: "event \<Rightarrow> db \<Rightarrow> error + (oid \<times> order) option" where
  "event_order ev s =
     (case e_orderId ev of
        None \<Rightarrow> Inr None
      | Some oid \<Rightarrow>
          if oid = [] then Inr None
          else
            (case Order_findById oid s of
               Inl e \<Rightarrow> Inl e
             | Inr None \<Rightarrow> Inr None
             | Inr (Some order) \<Rightarrow> Inr (Some (oid, order))))"

text \<open>The \<^verbatim>\<open>switch\<close> on the event type, with the error that leaves it, if any.\<close>

definition process_event :: "date \<Rightarrow> event \<Rightarrow> db \<Rightarrow> error option \<times> db" where
  "process_event now ev s =
     (if e_type ev = ''payment_intent.succeeded'' then
        (case event_order ev s of
           Inl e \<Rightarrow> (Some e, s)
         | Inr None \<Rightarrow> (None, s)
         | Inr (Some (oid, loaded)) \<Rightarrow>
             if pay_status (o_payment loaded) \<noteq> PaymentCompleted
             then (None, snd (save_order now oid loaded
                     (loaded\<lparr>o_payment := (o_payment loaded)
                                \<lparr>pay_status := PaymentCompleted,
                                 pay_transactionId := Some (e_id ev),
                                 pay_paidAt := Some now\<rparr>,
                             o_status := Processing\<rparr>) s))
             else (None, s))
      else if e_type ev = ''payment_intent.payment_failed'' then
        (case event_order ev s of
           Inl e \<Rightarrow> (Some e, s)
         | Inr None \<Rightarrow> (None, s)
         | Inr (Some (oid, loaded)) \<Rightarrow>
             (None, snd (save_order now oid loaded
                     (loaded\<lparr>o_payment := (o_payment loaded)\<lparr>pay_status := PaymentFailed\<rparr>\<rparr>) s)))
      else if e_type ev = ''payment_intent.canceled'' then
        (case event_order ev s of
           Inl e \<Rightarrow> (Some e, s)
         | Inr None \<Rightarrow> (None, s)
         | Inr (Some (oid, loaded)) \<Rightarrow>
             (None, snd (save_order now oid loaded
                     (loaded\<lparr>o_payment := (o_payment loaded)\<lparr>pay_status := PaymentFailed\<rparr>\<rparr>) s)))
      else if e_type ev = ''charge.refunded'' then
        (case find (\<lambda>(oid, order). pay_transactionId (o_payment order) = Some (e_payment_intent ev))
                (orders s) of
           None \<Rightarrow> (None, s)
         | Some (oid, loaded) \<Rightarrow>
             (None, snd (save_order now oid loaded
                     (loaded\<lparr>o_payment := (o_payment loaded)\<lparr>pay_status := PaymentRefunded\<rparr>,
                             o_status := Refunded\<rparr>) s)))
      else (None, s))"

text \<open>
  A missing signature header is thrown to the error handler; everything after it runs
  inside one \<^verbatim>\<open>try\<close>, whose \<^verbatim>\<open>catch\<close> answers 400 for the failed verification and for
  an error of the processing alike.
\<close>

definition handleWebhook :: "(string \<Rightarrow> string \<Rightarrow> event option) \<Rightarrow> date \<Rightarrow> webhook_request \<Rightarrow> db \<Rightarrow> (error + webhook_response) \<times> db" where
  "handleWebhook constructWebhookEvent now req s =
     (if w_signature req = [] then (Inl Missing_Stripe_signature, s)
      else
        (case constructWebhookEvent (w_body req) (w_signature req) of
           None \<Rightarrow> (Inr Webhook_processing_failed, s)
         | Some ev \<Rightarrow>
             (case process_event now ev s of
                (Some e, s') \<Rightarrow> (Inr Webhook_processing_failed, s')
              | (None, s') \<Rightarrow> (Inr Received, s'))))"

subsection \<open>createRefund\<close>

record refund_request =
  rf_orderId :: string
  rf_amount :: "number option"
  rf_reason :: string


section \<open>Notions used to state the properties\<close>

text \<open>
  The errors that \<^verbatim>\<open>createOrder\<close> throws from its checks, before it creates anything:
  the cart id, the cart, the user, the ownership, the empty cart and the lines' product,
  availability, variant and stock.
\<close>

fun validation_failure :: "error \<Rightarrow> bool" where
  "validation_failure Invalid_cart_ID = True"
| "validation_failure (No_cart_found _) = True"
| "validation_failure Authentication_required = True"
| "validation_failure Cart_does_not_belong_to_this_user = True"
| "validation_failure Cannot_create_order_with_empty_cart = True"
| "validation_failure (Product_not_found _) = True"
| "validation_failure (Product_is_no_longer_available _) = True"
| "validation_failure (Variant_not_found_for_product _) = True"
| "validation_failure (Not_enough_inventory _ _) = True"
| "validation_failure _ = False"

text \<open>
  The totals of a cart are current: they are what \<^verbatim>\<open>calculateTotals\<close> computes from the
  cart's lines, discount, tax rate and shipping method.
\<close>

definition totals_current :: "cart \<Rightarrow> bool" where
  "totals_current c =
     (c_subtotal c = sum_list (map i_subtotal (c_items c))
      \<and> c_total c = c_subtotal c - discountAmount c + taxAmount c + shippingCost c
      \<and> map_option t_amount (c_tax c) = map_option (\<lambda>t. taxAmount c) (c_tax c))"





text \<open>
  The requests that update an order after its creation, and the database after one and
  after a sequence of them.
\<close>

datatype update =
    UpdateOrderStatus date string string
  | ConfirmPayment "string \<Rightarrow> string option" date confirm_request
  | HandleWebhook "string \<Rightarrow> string \<Rightarrow> event option" date webhook_request
  | CreateRefund "string \<Rightarrow> number \<Rightarrow> string \<Rightarrow> string option" date refund_request







section \<open>Example data\<close>

text \<open>
  The cart of one customer: one line of price 10.00 and quantity 2, a tax rate of 10 per
  cent and a shipping method of price 5.00, with totals still to be computed.
\<close>

definition scenario_cart :: cart where
  "scenario_cart =
     \<lparr>c_customer = Some ''eeeeeeeeeeeeeeeeeeeeeee1'', c_sessionId = None,
      c_items = [\<lparr>i_id = ''1111111111111111111111a1'', i_product = ''aaaaaaaaaaaaaaaaaaaaaaa1'',
                  i_name = ''Widget'', i_price = 10,
                  i_quantity = 2, i_variant = None, i_image = None, i_sku = None,
                  i_subtotal = 20, i_maxQuantity = Some 5\<rparr>],
      c_subtotal = 0, c_discountCode = None, c_discount = None,
      c_tax = Some \<lparr>t_rate = 1 / 10, t_amount = 0\<rparr>,
      c_shippingMethod = Some \<lparr>sm_id = ''ground'', sm_name = ''Ground'', sm_price = 5\<rparr>,
      c_total = 0, c_currency = ''USD''\<rparr>"

text \<open>The cart that is checked out: the same cart without a tax.\<close>

definition basket :: cart where
  "basket = scenario_cart\<lparr>c_tax := None\<rparr>"

text \<open>
  A shop with one product of stock 5 and that cart with its totals computed, and the
  checkout request of its customer.
\<close>

definition widget :: product where
  "widget = \<lparr>p_name = ''Widget'', p_sku = Some ''W-1'', p_price = 10, p_images = [],
              p_isActive = True, p_inventory = 5, p_variants = [], p_hasVariants = False\<rparr>"

definition home :: address where
  "home = \<lparr>fullName = ''A Buyer'', addressLine1 = ''1 Main Street'', addressLine2 = None,
            city = ''Springfield'', state = ''IL'', postalCode = ''62701'', country = ''US'',
            phone = None\<rparr>"

definition buyer :: user where
  "buyer = \<lparr>userId = ''eeeeeeeeeeeeeeeeeeeeeee1'', email = ''buyer@example.com'', role = ''user''\<rparr>"

definition ground_shipping :: shipping_method where
  "ground_shipping = \<lparr>osm_name = ''Ground'', osm_carrier = ''USPS'', osm_price = 5,
       osm_estimatedDelivery = None\<rparr>"

definition checkout_request :: create_order_request where
  "checkout_request =
     \<lparr>r_user = Some buyer, r_cartId = ''cccccccccccccccccccccca1'', r_shippingAddress = home,
      r_paymentMethod = ''stripe'', r_shippingMethod = Some ground_shipping, r_notes = None\<rparr>"

definition shop :: db where
  "shop = \<lparr>products = [(''aaaaaaaaaaaaaaaaaaaaaaa1'', widget)],
           carts = [(''cccccccccccccccccccccca1'', calculateTotals basket)],
           orders = []\<rparr>"


text \<open>The same shop with one unit of the product left.\<close>

definition scarce_shop :: db where
  "scarce_shop = shop\<lparr>products := [(''aaaaaaaaaaaaaaaaaaaaaaa1'', widget\<lparr>p_inventory := 1\<rparr>)]\<rparr>"

text \<open>The order that the checkout of that cart creates, and the shop after it.\<close>

definition placed_order :: order where
  "placed_order =
     \<lparr>o_orderNumber = ''ORD-202611-00001'',
      o_customer = ''eeeeeeeeeeeeeeeeeeeeeee1'',
      o_email = ''buyer@example.com'',
      o_items = [\<lparr>oi_product = ''aaaaaaaaaaaaaaaaaaaaaaa1'', oi_name = ''Widget'', oi_price = 10,
                  oi_quantity = 2, oi_variant = None, oi_image = None, oi_sku = None,
                  oi_subtotal = 20\<rparr>],
      o_billingAddress = home,
      o_shippingAddress = home,
      o_shippingMethod = ground_shipping,
      o_payment = \<lparr>pay_method = ''stripe'', pay_status = PaymentPending,
                    pay_transactionId = None, pay_amount = 25, pay_currency = ''USD'',
                    pay_paidAt = None\<rparr>,
      o_subtotal = 20, o_shippingCost = 5, o_discount = None,
      o_tax = [], o_total = 25, o_currency = ''USD'',
      o_status = Pending,
      o_statusHistory = [\<lparr>h_status = Pending, h_timestamp = 7, h_note = Some ''Order created''\<rparr>],
      o_notes = None\<rparr>"

definition shop_after_checkout :: db where
  "shop_after_checkout =
     \<lparr>products = [(''aaaaaaaaaaaaaaaaaaaaaaa1'', widget\<lparr>p_inventory := 3\<rparr>)],
      carts = [(''cccccccccccccccccccccca1'', clearCart basket)],
      orders = [(''0000000000000000000000a1'', placed_order)]\<rparr>"

text \<open>The shop once that order has been delivered.\<close>

definition delivered_order :: order where
  "delivered_order = placed_order\<lparr>o_status := Delivered\<rparr>"

definition delivered_shop :: db where
  "delivered_shop = shop_after_checkout\<lparr>orders := [(''0000000000000000000000a1'', delivered_order)]\<rparr>"

text \<open>
  The confirmation of the payment of that order by its customer, with the order and the
  shop after it.
\<close>

definition paid_order :: order where
  "paid_order =
     placed_order\<lparr>o_payment := (o_payment placed_order)
                      \<lparr>pay_status := PaymentCompleted, pay_transactionId := Some ''pi_1'',
                       pay_paidAt := Some 8\<rparr>,
                   o_status := Processing,
                   o_statusHistory := o_statusHistory placed_order @
                      [\<lparr>h_status = Processing, h_timestamp = 8, h_note = None\<rparr>]\<rparr>"

definition paid_shop :: db where
  "paid_shop = shop_after_checkout\<lparr>orders := [(''0000000000000000000000a1'', paid_order)]\<rparr>"

definition confirmation :: confirm_request where
  "confirmation = \<lparr>cf_user = Some buyer, cf_paymentIntentId = ''pi_1'',
      cf_orderId = ''0000000000000000000000a1''\<rparr>"

text \<open>
  A payment-intent event about an order, a request that carries a signature, and
  providers that report every intent as succeeded and verify every request as a given
  event.
\<close>

definition payment_event :: "string \<Rightarrow> string \<Rightarrow> event" where
  "payment_event type oid = \<lparr>e_type = type, e_id = ''pi_1'', e_orderId = Some oid, e_payment_intent = []\<rparr>"

definition signed_request :: webhook_request where
  "signed_request = \<lparr>w_signature = ''t=1,v1=5257a869'', w_body = ''{}''\<rparr>"

definition intent_succeeded :: "string \<Rightarrow> string option" where
  "intent_succeeded paymentIntentId = Some ''succeeded''"

definition verified_as :: "event \<Rightarrow> string \<Rightarrow> string \<Rightarrow> event option" where
  "verified_as ev body signature = Some ev"








section \<open>Auxiliary facts\<close>

lemmas fixtures = scenario_cart_def basket_def widget_def home_def buyer_def ground_shipping_def
  checkout_request_def shop_def

lemmas model = calculateTotals_def discountAmount_def taxAmount_def shippingCost_def
  createOrder_def place_order_def isValid_def isHex_def line_inventory_def named_variant_def
  adjust_inventory_def save_product_def inventory_valid_def write_inventory_def
  Order_create_def new_order_def save_cart_def clearCart_def order_item_of_def

lemma foldl_subtotal:
  "foldl (\<lambda>total item. total + i_subtotal item) a xs = a + sum_list (map i_subtotal xs)"
  by (induction xs arbitrary: a) simp_all


lemma save_product_error:
  "save_product pid v p s = (Some e, s') \<Longrightarrow> e = ValidationError ''Inventory cannot be negative''"
  by (auto simp: save_product_def split: if_splits option.splits)

lemma update_inventory_error:
  "update_inventory items s = (Some e, s') \<Longrightarrow> e = ValidationError ''Inventory cannot be negative''"
proof (induction items arbitrary: s)
  case Nil
  then show ?case by simp
next
  case (Cons item rest)
  then show ?case
    by (auto split: option.splits prod.splits dest: save_product_error)
qed

lemma place_order_error:
  "place_order new_id orderNumber now u req cart s = (Inl e, s') \<Longrightarrow> \<not> validation_failure e"
  by (auto simp: place_order_def Order_create_def save_cart_def Let_def
      split: option.splits prod.splits sum.splits if_splits dest: update_inventory_error)

lemma save_product_orders: "orders (snd (save_product pid v p s)) = orders s"
  by (simp add: save_product_def split: option.splits)

lemma save_product_carts: "carts (snd (save_product pid v p s)) = carts s"
  by (simp add: save_product_def split: option.splits)


lemma restore_inventory_orders: "orders (snd (restore_inventory items s)) = orders s"
proof (induction items arbitrary: s)
  case Nil
  then show ?case by simp
next
  case (Cons item rest)
  show ?case
  proof (cases "map_of (products s) (oi_product item)")
    case None
    then show ?thesis using Cons.IH by simp
  next
    case (Some product)
    obtain e s' where sp: "save_product (oi_product item) (oi_variant item)
        (adjust_inventory (oi_variant item) (oi_quantity item) product) s = (e, s')"
      by (cases "save_product (oi_product item) (oi_variant item)
        (adjust_inventory (oi_variant item) (oi_quantity item) product) s")
    have "orders s' = orders s" using save_product_orders[of "oi_product item" "oi_variant item" _ s] sp
      by (metis snd_conv)
    then show ?thesis using Some sp Cons.IH[of s'] by (cases e) simp_all
  qed
qed



section \<open>Cart totals\<close>

lemma calculateTotals_current: "totals_current (calculateTotals c)"
  by (auto simp: totals_current_def calculateTotals_def Let_def discountAmount_def taxAmount_def
      shippingCost_def foldl_subtotal split: option.splits)








section \<open>Checkout\<close>

text \<open>
  The checks of \<^verbatim>\<open>createOrder\<close>, one by one: each failing check ends the request with
  its error and the database as it was. The inventory check passes exactly when every
  line has its product, the product is active, a named variant exists and the stock is
  not below the quantity.
\<close>

lemma createOrder_failing_checks:
  "\<not> isValid (r_cartId req) \<Longrightarrow>
     createOrder new_id orderNumber now req s = (Inl Invalid_cart_ID, s)"
  "isValid (r_cartId req) \<Longrightarrow> map_of (carts s) (r_cartId req) = None \<Longrightarrow>
     createOrder new_id orderNumber now req s = (Inl (No_cart_found (r_cartId req)), s)"
  "isValid (r_cartId req) \<Longrightarrow> map_of (carts s) (r_cartId req) = Some cart \<Longrightarrow>
     r_user req = None \<Longrightarrow>
     createOrder new_id orderNumber now req s = (Inl Authentication_required, s)"
  "isValid (r_cartId req) \<Longrightarrow> map_of (carts s) (r_cartId req) = Some cart \<Longrightarrow>
     r_user req = Some u \<Longrightarrow> c_customer cart = Some owner \<Longrightarrow> owner \<noteq> userId u \<Longrightarrow>
     createOrder new_id orderNumber now req s = (Inl Cart_does_not_belong_to_this_user, s)"
  "isValid (r_cartId req) \<Longrightarrow> map_of (carts s) (r_cartId req) = Some cart \<Longrightarrow>
     r_user req = Some u \<Longrightarrow> c_customer cart = None \<or> c_customer cart = Some (userId u) \<Longrightarrow>
     c_items cart = [] \<Longrightarrow>
     createOrder new_id orderNumber now req s = (Inl Cannot_create_order_with_empty_cart, s)"
  "isValid (r_cartId req) \<Longrightarrow> map_of (carts s) (r_cartId req) = Some cart \<Longrightarrow>
     r_user req = Some u \<Longrightarrow> c_customer cart = None \<or> c_customer cart = Some (userId u) \<Longrightarrow>
     c_items cart \<noteq> [] \<Longrightarrow> check_inventory s (c_items cart) = Some e \<Longrightarrow>
     createOrder new_id orderNumber now req s = (Inl e, s)"
  by (auto simp: createOrder_def)

lemma check_inventory_passes:
  "check_inventory s items = None \<longleftrightarrow>
     list_all (\<lambda>item. case map_of (products s) (i_product item) of
                        None \<Rightarrow> False
                      | Some product \<Rightarrow>
                          p_isActive product
                          \<and> (case line_inventory product item of
                                Inl e \<Rightarrow> False
                              | Inr inventory \<Rightarrow> i_quantity item \<le> inventory)) items"
  by (induction items) (auto split: option.splits sum.splits)

lemma check_inventory_error:
  "check_inventory s items = Some e \<Longrightarrow> validation_failure e"
  by (induction items)
    (auto simp: line_inventory_def split: option.splits sum.splits if_splits)

text \<open>
  C8. When \<^verbatim>\<open>createOrder\<close> fails one of its checks (cart id or cart missing, user
  missing, cart of another customer, empty cart, product missing or inactive, variant
  missing, stock of a line insufficient), the database is left as it was: no order is
  created, no inventory is decremented and the cart is unchanged.
\<close>

theorem createOrder_validation_failure_mutates_nothing:
  assumes "fst (createOrder new_id orderNumber now req s) = Inl e"
    and "validation_failure e"
  shows "snd (createOrder new_id orderNumber now req s) = s"
proof (cases "createOrder new_id orderNumber now req s")
  case (Pair r s')
  with assms(1) have r: "r = Inl e" by simp
  show ?thesis
  proof (rule ccontr)
    assume "snd (createOrder new_id orderNumber now req s) \<noteq> s"
    with Pair r obtain u cart where "place_order new_id orderNumber now u req cart s = (Inl e, s')"
      by (auto simp: createOrder_def split: if_splits option.splits)
    from place_order_error[OF this] assms(2) show False by simp
  qed
qed


theorem createOrder_validation_failure_mutates_nothing_witness:
  "fst (createOrder ''0000000000000000000000a1'' ''ORD-202611-00001'' 7 checkout_request scarce_shop)
     = Inl (Not_enough_inventory ''Widget'' 1)
   \<and> validation_failure (Not_enough_inventory ''Widget'' 1)
   \<and> snd (createOrder ''0000000000000000000000a1'' ''ORD-202611-00001'' 7 checkout_request scarce_shop)
     = scarce_shop"
proof -
  have f: "fst (createOrder ''0000000000000000000000a1'' ''ORD-202611-00001'' 7 checkout_request scarce_shop)
     = Inl (Not_enough_inventory ''Widget'' 1)"
    by (simp add: scarce_shop_def fixtures model)
  have v: "validation_failure (Not_enough_inventory ''Widget'' 1)" by simp
  from createOrder_validation_failure_mutates_nothing [OF f v] f v show ?thesis by simp
qed



section \<open>Status updates\<close>

lemma isValid_example: "isValid ''0000000000000000000000a1''"
  by (simp add: isValid_def isHex_def)

lemma updateOrderStatus_success:
  assumes "isValid oid" and "map_of validStatuses status = Some status'"
    and "map_of (orders s) oid = Some order"
  shows "updateOrderStatus now oid status s =
     (let order' = order\<lparr>o_status := status',
                     o_statusHistory := o_statusHistory order @
                       (if status' \<noteq> o_status order
                        then [\<lparr>h_status = status', h_timestamp = now, h_note = None\<rparr>] else [])\<rparr>
      in (Inr order', s\<lparr>orders := AList.update oid order' (orders s)\<rparr>))"
  using assms by (simp add: updateOrderStatus_def save_order_def Let_def)

lemma updateOrderStatus_failure:
  assumes "fst (updateOrderStatus now oid status s) = Inl e"
  shows "snd (updateOrderStatus now oid status s) = s
       \<and> (e = Invalid_order_ID \<or> e = Invalid_status \<or> e = No_order_found oid)"
  using assms
  by (auto simp: updateOrderStatus_def save_order_def Let_def split: if_splits option.splits)

text \<open>
  C3, as the claim states it, fails: a delivered order is cancelled when asked, without
  error, and the stored order changes.
\<close>

theorem cancelling_a_delivered_order_counterexample:
  "\<not> (isl (fst (updateOrderStatus 9 ''0000000000000000000000a1'' ''cancelled'' delivered_shop))
      \<and> map_of (orders (snd (updateOrderStatus 9 ''0000000000000000000000a1'' ''cancelled'' delivered_shop)))
           ''0000000000000000000000a1'' = Some delivered_order)"
proof -
  have "map_of validStatuses ''cancelled'' = Some Cancelled"
    by (simp add: validStatuses_def)
  moreover have "map_of (orders delivered_shop) ''0000000000000000000000a1'' = Some delivered_order"
    by (simp add: delivered_shop_def)
  ultimately show ?thesis
    using updateOrderStatus_success[OF isValid_example, of "''cancelled''" Cancelled delivered_shop delivered_order 9]
    by (simp add: Let_def)
qed

text \<open>
  C3, amended. \<^verbatim>\<open>updateOrderStatus\<close> checks no transition: for every stored order,
  whatever its status, and each of the six status names, the update succeeds, sets the
  status and appends a history entry when the status changed. An update fails only for
  a malformed order id, a status outside the six names or a missing order, and then
  leaves the database unchanged.
\<close>

theorem updateOrderStatus_checks_no_transition:
  "(isValid oid \<and> map_of validStatuses status = Some status' \<and> map_of (orders s) oid = Some order
      \<longrightarrow> updateOrderStatus now oid status s =
            (Inr (order\<lparr>o_status := status',
                     o_statusHistory := o_statusHistory order @
                       (if status' \<noteq> o_status order
                        then [\<lparr>h_status = status', h_timestamp = now, h_note = None\<rparr>] else [])\<rparr>),
             s\<lparr>orders := AList.update oid
                   (order\<lparr>o_status := status',
                     o_statusHistory := o_statusHistory order @
                       (if status' \<noteq> o_status order
                        then [\<lparr>h_status = status', h_timestamp = now, h_note = None\<rparr>] else [])\<rparr>)
                   (orders s)\<rparr>))
   \<and> (fst (updateOrderStatus now oid status s) = Inl e
      \<longrightarrow> snd (updateOrderStatus now oid status s) = s
          \<and> (e = Invalid_order_ID \<or> e = Invalid_status \<or> e = No_order_found oid))"
  using updateOrderStatus_success[of oid status status' s order now]
    updateOrderStatus_failure[of now oid status s e]
  by (simp add: Let_def)

theorem updateOrderStatus_checks_no_transition_witness:
  "isValid ''0000000000000000000000a1'' \<and> map_of validStatuses ''cancelled'' = Some Cancelled
   \<and> map_of (orders delivered_shop) ''0000000000000000000000a1'' = Some delivered_order
   \<and> fst (updateOrderStatus 9 ''0000000000000000000000a1'' ''cancelled'' delivered_shop)
       = Inr (delivered_order\<lparr>o_status := Cancelled,
               o_statusHistory := o_statusHistory delivered_order @
                  [\<lparr>h_status = Cancelled, h_timestamp = 9, h_note = None\<rparr>]\<rparr>)
   \<and> fst (updateOrderStatus 9 ''0000000000000000000000a1'' ''returned'' delivered_shop) = Inl Invalid_status
   \<and> snd (updateOrderStatus 9 ''0000000000000000000000a1'' ''returned'' delivered_shop) = delivered_shop"
proof -
  have a: "map_of validStatuses ''cancelled'' = Some Cancelled"
    by (simp add: validStatuses_def)
  have b: "map_of (orders delivered_shop) ''0000000000000000000000a1'' = Some delivered_order"
    by (simp add: delivered_shop_def)
  have c: "fst (updateOrderStatus 9 ''0000000000000000000000a1'' ''returned'' delivered_shop) = Inl Invalid_status"
    by (simp add: updateOrderStatus_def validStatuses_def isValid_example)
  have d: "o_status delivered_order = Delivered"
    by (simp add: delivered_order_def)
  show ?thesis
    using updateOrderStatus_checks_no_transition
      [where oid = "''0000000000000000000000a1''" and status = "''cancelled''"
         and status' = Cancelled and s = delivered_shop and order = delivered_order and now = 9]
      updateOrderStatus_checks_no_transition
      [where oid = "''0000000000000000000000a1''" and status = "''returned''"
         and s = delivered_shop and now = 9 and e = Invalid_status]
      a b c d isValid_example
    by simp
qed

lemma updateOrderStatus_products:
  "products (snd (updateOrderStatus now oid status s)) = products s"
proof (cases "fst (updateOrderStatus now oid status s)")
  case (Inl e)
  with updateOrderStatus_failure[of now oid status s e] show ?thesis by simp
next
  case (Inr order)
  then obtain status' loaded where "isValid oid" "map_of validStatuses status = Some status'"
    "map_of (orders s) oid = Some loaded"
    by (auto simp: updateOrderStatus_def split: if_splits option.splits)
  from updateOrderStatus_success[OF this] show ?thesis by (simp add: Let_def)
qed

text \<open>
  C4 at a concrete order: the pending order of the example holds 2 units of the product,
  whose stock is 3. Cancelling it succeeds and the stock is still 3: the test that
  guards the restoration reads the status after the assignment of \<^verbatim>\<open>'cancelled'\<close>, so
  no status update ever changes a product (\<open>updateOrderStatus_products\<close>).
\<close>

theorem cancellation_restores_no_stock:
  "map_of (orders shop_after_checkout) ''0000000000000000000000a1'' = Some placed_order
   \<and> o_status placed_order = Pending
   \<and> map (\<lambda>item. (oi_product item, oi_quantity item)) (o_items placed_order)
        = [(''aaaaaaaaaaaaaaaaaaaaaaa1'', 2)]
   \<and> map_option p_inventory (map_of (products shop_after_checkout) ''aaaaaaaaaaaaaaaaaaaaaaa1'') = Some 3
   \<and> fst (updateOrderStatus 9 ''0000000000000000000000a1'' ''cancelled'' shop_after_checkout)
       = Inr (placed_order\<lparr>o_status := Cancelled,
               o_statusHistory := o_statusHistory placed_order @
                  [\<lparr>h_status = Cancelled, h_timestamp = 9, h_note = None\<rparr>]\<rparr>)
   \<and> map_option p_inventory
        (map_of (products (snd (updateOrderStatus 9 ''0000000000000000000000a1'' ''cancelled''
            shop_after_checkout))) ''aaaaaaaaaaaaaaaaaaaaaaa1'') = Some 3"
  by (simp add: updateOrderStatus_def validStatuses_def isValid_example save_order_def
      shop_after_checkout_def placed_order_def widget_def Let_def)


section \<open>Payments\<close>

lemma confirmation_of_the_scenario:
  "confirmPayment intent_succeeded 8 confirmation shop_after_checkout
     = (Inr (''Payment confirmed successfully'', paid_order), paid_shop)"
  by (simp add: confirmPayment_def confirmation_def shop_after_checkout_def isValid_example
      placed_order_def buyer_def save_order_def paid_order_def paid_shop_def Let_def
      intent_succeeded_def)

lemma confirmPayment_completed:
  assumes "map_of (orders s) (cf_orderId req) = Some order"
    and "pay_status (o_payment order) = PaymentCompleted"
  shows "snd (confirmPayment getPaymentIntent now req s) = s"
  using assms by (simp add: confirmPayment_def split: option.splits)

lemma map_of_update_same: "map_of (AList.update k v al) k = Some v"
  by (simp add: update_conv')

lemma confirmPayment_success:
  assumes "confirmPayment getPaymentIntent now req s = (Inr (message, order), s')"
  shows "cf_paymentIntentId req \<noteq> [] \<and> cf_orderId req \<noteq> []
       \<and> getPaymentIntent (cf_paymentIntentId req) = Some ''succeeded''
       \<and> isValid (cf_orderId req)
       \<and> (\<exists>u. cf_user req = Some u \<and> o_customer order = userId u)
       \<and> map_of (orders s') (cf_orderId req) = Some order
       \<and> pay_status (o_payment order) = PaymentCompleted
       \<and> products s' = products s \<and> carts s' = carts s"
  using assms
  by (auto simp: confirmPayment_def save_order_def Let_def map_of_update_same
      split: if_splits option.splits)

lemma confirmPayment_first_time:
  assumes "confirmPayment getPaymentIntent now req s = (Inr (message, order), s')"
    and "map_of (orders s) (cf_orderId req) = Some loaded"
    and "pay_status (o_payment loaded) \<noteq> PaymentCompleted"
  shows "order = loaded\<lparr>o_payment := (o_payment loaded)
                          \<lparr>pay_status := PaymentCompleted,
                           pay_transactionId := Some (cf_paymentIntentId req),
                           pay_paidAt := Some now\<rparr>,
                        o_status := Processing,
                        o_statusHistory := o_statusHistory loaded @
                          (if o_status loaded \<noteq> Processing
                           then [\<lparr>h_status = Processing, h_timestamp = now, h_note = None\<rparr>]
                           else [])\<rparr>"
  using assms
  by (auto simp: confirmPayment_def save_order_def Let_def split: if_splits option.splits)

lemma confirmPayment_again:
  assumes "confirmPayment getPaymentIntent now req s = (Inr (message, order), s')"
  shows "confirmPayment getPaymentIntent now' req s' = (Inr (''Order is already paid'', order), s')"
proof -
  from confirmPayment_success[OF assms] obtain u where
    "cf_paymentIntentId req \<noteq> []" "cf_orderId req \<noteq> []"
    "getPaymentIntent (cf_paymentIntentId req) = Some ''succeeded''"
    "isValid (cf_orderId req)" "cf_user req = Some u" "o_customer order = userId u"
    "map_of (orders s') (cf_orderId req) = Some order"
    "pay_status (o_payment order) = PaymentCompleted"
    by auto
  then show ?thesis by (simp add: confirmPayment_def)
qed

lemma event_order_Some:
  "event_order ev s = Inr (Some (oid, order))
     \<longleftrightarrow> e_orderId ev = Some oid \<and> oid \<noteq> [] \<and> isValid oid \<and> map_of (orders s) oid = Some order"
  by (auto simp: event_order_def Order_findById_def split: option.splits if_splits sum.splits)

lemma event_order_Inl:
  "event_order ev s = Inl e
     \<longleftrightarrow> (\<exists>oid. e_orderId ev = Some oid \<and> oid \<noteq> [] \<and> \<not> isValid oid \<and> e = CastError oid)"
  by (auto simp: event_order_def Order_findById_def split: option.splits if_splits sum.splits)

lemma event_order_orders:
  "e_orderId ev = e_orderId ev' \<Longrightarrow> map_of (orders s) = map_of (orders s') \<Longrightarrow> event_order ev s = event_order ev' s'"
  by (simp add: event_order_def Order_findById_def split: option.splits)

lemma succeeded_completed:
  assumes "e_type ev = ''payment_intent.succeeded''"
    and "e_orderId ev = Some oid" and "map_of (orders s) oid = Some order"
    and "pay_status (o_payment order) = PaymentCompleted"
  shows "snd (process_event now ev s) = s"
  using assms
  by (auto simp: process_event_def event_order_def Order_findById_def
      split: option.splits sum.splits if_splits)

lemma succeeded_again:
  assumes "e_type ev = ''payment_intent.succeeded''"
    and "process_event now ev s = (r, s')"
  shows "process_event now' ev s' = (r, s')"
proof (cases "event_order ev s")
  case (Inl e)
  with assms show ?thesis by (auto simp: process_event_def)
next
  case (Inr x)
  show ?thesis
  proof (cases x)
    case None
    with Inr assms show ?thesis by (auto simp: process_event_def)
  next
    case (Some p)
    obtain oid loaded where p: "p = (oid, loaded)" by (cases p)
    from Inr Some p have eo: "e_orderId ev = Some oid" "oid \<noteq> []" "isValid oid" "map_of (orders s) oid = Some loaded"
      by (simp_all add: event_order_Some)
    show ?thesis
    proof (cases "pay_status (o_payment loaded) = PaymentCompleted")
      case True
      with assms Inr Some p show ?thesis by (auto simp: process_event_def)
    next
      case False
      with assms Inr Some p have r: "r = None"
        and s': "s' = snd (save_order now oid loaded
                     (loaded\<lparr>o_payment := (o_payment loaded)
                                \<lparr>pay_status := PaymentCompleted,
                                 pay_transactionId := Some (e_id ev),
                                 pay_paidAt := Some now\<rparr>,
                             o_status := Processing\<rparr>) s)"
        by (auto simp: process_event_def)
      from s' obtain order where o: "map_of (orders s') oid = Some order"
        "pay_status (o_payment order) = PaymentCompleted"
        by (auto simp: save_order_def Let_def map_of_update_same)
      with eo have "event_order ev s' = Inr (Some (oid, order))" by (simp add: event_order_Some)
      with assms(1) o r show ?thesis by (simp add: process_event_def)
    qed
  qed
qed

lemma process_event_products: "products (snd (process_event now ev s)) = products s"
  by (auto simp: process_event_def save_order_def Let_def split: option.splits sum.splits prod.splits)

lemma process_event_carts: "carts (snd (process_event now ev s)) = carts s"
  by (auto simp: process_event_def save_order_def Let_def split: option.splits sum.splits prod.splits)


lemma succeeded_webhook_of_the_scenario:
  "handleWebhook (verified_as (payment_event ''payment_intent.succeeded'' ''0000000000000000000000a1''))
      8 signed_request shop_after_checkout = (Inr Received, paid_shop)"
  by (simp add: handleWebhook_def process_event_def event_order_def Order_findById_def
      isValid_example signed_request_def verified_as_def payment_event_def
      shop_after_checkout_def placed_order_def save_order_def paid_order_def paid_shop_def Let_def)

text \<open>
  C6. \<^verbatim>\<open>confirmPayment\<close> and the handler of \<^verbatim>\<open>payment_intent.succeeded\<close> are idempotent.
  A confirmation that succeeded, repeated at any later time, answers with the same order
  and changes nothing; it never touches a product, and the first one appends exactly one
  history entry, for the transition to processing. A succeeded webhook delivered a
  second time gets the same response and changes nothing; it is acknowledged when its
  order exists, and its first delivery appends that one history entry. On any order whose payment is completed, both leave the database as it
  is and answer with success.
\<close>

theorem payment_confirmation_idempotent:
  "(confirmPayment getPaymentIntent now req s = (Inr (message, order), s')
      \<longrightarrow> confirmPayment getPaymentIntent now' req s' = (Inr (''Order is already paid'', order), s')
          \<and> products s' = products s
          \<and> (\<forall>loaded. map_of (orders s) (cf_orderId req) = Some loaded
                \<and> pay_status (o_payment loaded) \<noteq> PaymentCompleted \<and> o_status loaded \<noteq> Processing
                \<longrightarrow> o_statusHistory order = o_statusHistory loaded @
                       [\<lparr>h_status = Processing, h_timestamp = now, h_note = None\<rparr>]))
   \<and> (w_signature wreq \<noteq> [] \<and> constructWebhookEvent (w_body wreq) (w_signature wreq) = Some ev
      \<and> e_type ev = ''payment_intent.succeeded''
      \<and> handleWebhook constructWebhookEvent now wreq s = (response, s1)
      \<longrightarrow> handleWebhook constructWebhookEvent now' wreq s1 = (response, s1)
          \<and> products s1 = products s
          \<and> (\<forall>oid loaded. e_orderId ev = Some oid \<and> oid \<noteq> [] \<and> isValid oid
                \<and> map_of (orders s) oid = Some loaded
                \<longrightarrow> response = Inr Received
                    \<and> (pay_status (o_payment loaded) \<noteq> PaymentCompleted
                         \<and> o_status loaded \<noteq> Processing
                        \<longrightarrow> map_option o_statusHistory (map_of (orders s1) oid)
                              = Some (o_statusHistory loaded @
                                  [\<lparr>h_status = Processing, h_timestamp = now, h_note = None\<rparr>]))))
   \<and> (map_of (orders s) oid = Some paid \<and> pay_status (o_payment paid) = PaymentCompleted
      \<longrightarrow> (cf_orderId req = oid \<longrightarrow> snd (confirmPayment getPaymentIntent now req s) = s)
          \<and> (cf_orderId req = oid \<and> cf_paymentIntentId req \<noteq> [] \<and> oid \<noteq> [] \<and> isValid oid
               \<and> getPaymentIntent (cf_paymentIntentId req) = Some ''succeeded''
               \<and> map_option userId (cf_user req) = Some (o_customer paid)
               \<longrightarrow> fst (confirmPayment getPaymentIntent now req s) = Inr (''Order is already paid'', paid))
          \<and> (w_signature wreq \<noteq> [] \<and> constructWebhookEvent (w_body wreq) (w_signature wreq) = Some ev
               \<and> e_type ev = ''payment_intent.succeeded'' \<and> e_orderId ev = Some oid \<and> oid \<noteq> [] \<and> isValid oid
               \<longrightarrow> handleWebhook constructWebhookEvent now wreq s = (Inr Received, s)))"
proof (intro conjI impI allI)
  assume a: "confirmPayment getPaymentIntent now req s = (Inr (message, order), s')"
  show "confirmPayment getPaymentIntent now' req s' = (Inr (''Order is already paid'', order), s')"
    by (rule confirmPayment_again[OF a])
  show "products s' = products s"
    using confirmPayment_success[OF a] by simp
  fix loaded
  assume "map_of (orders s) (cf_orderId req) = Some loaded
                \<and> pay_status (o_payment loaded) \<noteq> PaymentCompleted \<and> o_status loaded \<noteq> Processing"
  then show "o_statusHistory order = o_statusHistory loaded @
                       [\<lparr>h_status = Processing, h_timestamp = now, h_note = None\<rparr>]"
    using confirmPayment_first_time[OF a, of loaded] by simp
next
  assume b: "w_signature wreq \<noteq> [] \<and> constructWebhookEvent (w_body wreq) (w_signature wreq) = Some ev
      \<and> e_type ev = ''payment_intent.succeeded''
      \<and> handleWebhook constructWebhookEvent now wreq s = (response, s1)"
  obtain r where pe: "process_event now ev s = (r, s1)"
    and resp: "response = (case r of Some e \<Rightarrow> Inr Webhook_processing_failed | None \<Rightarrow> Inr Received)"
    using b by (cases "process_event now ev s") (auto simp: handleWebhook_def split: option.splits)
  from b have t: "e_type ev = ''payment_intent.succeeded''" by simp
  from succeeded_again[OF t pe, of now'] b resp
  show "handleWebhook constructWebhookEvent now' wreq s1 = (response, s1)"
    by (simp add: handleWebhook_def split: option.splits)
  show "products s1 = products s"
    using process_event_products[of now ev s] pe by simp
  fix oid loaded
  assume "e_orderId ev = Some oid \<and> oid \<noteq> [] \<and> isValid oid \<and> map_of (orders s) oid = Some loaded"
  then have eo: "event_order ev s = Inr (Some (oid, loaded))" by (simp add: event_order_Some)
  with pe t have "r = None" by (auto simp: process_event_def split: if_splits)
  with resp show "response = Inr Received" by simp
  assume "pay_status (o_payment loaded) \<noteq> PaymentCompleted \<and> o_status loaded \<noteq> Processing"
  with eo pe t show "map_option o_statusHistory (map_of (orders s1) oid)
      = Some (o_statusHistory loaded @ [\<lparr>h_status = Processing, h_timestamp = now, h_note = None\<rparr>])"
    by (auto simp: process_event_def save_order_def Let_def map_of_update_same)
next
  assume c: "map_of (orders s) oid = Some paid \<and> pay_status (o_payment paid) = PaymentCompleted"
  {
    assume "cf_orderId req = oid"
    with c show "snd (confirmPayment getPaymentIntent now req s) = s"
      using confirmPayment_completed[of s req paid] by simp
  }
  {
    assume "cf_orderId req = oid \<and> cf_paymentIntentId req \<noteq> [] \<and> oid \<noteq> [] \<and> isValid oid
               \<and> getPaymentIntent (cf_paymentIntentId req) = Some ''succeeded''
               \<and> map_option userId (cf_user req) = Some (o_customer paid)"
    with c show "fst (confirmPayment getPaymentIntent now req s) = Inr (''Order is already paid'', paid)"
      by (auto simp: confirmPayment_def)
  }
  {
    assume d: "w_signature wreq \<noteq> [] \<and> constructWebhookEvent (w_body wreq) (w_signature wreq) = Some ev
               \<and> e_type ev = ''payment_intent.succeeded'' \<and> e_orderId ev = Some oid \<and> oid \<noteq> [] \<and> isValid oid"
    with c have "event_order ev s = Inr (Some (oid, paid))" by (simp add: event_order_Some)
    with c d show "handleWebhook constructWebhookEvent now wreq s = (Inr Received, s)"
      by (simp add: handleWebhook_def process_event_def)
  }
qed


theorem payment_confirmation_idempotent_witness:
  "confirmPayment intent_succeeded 8 confirmation shop_after_checkout
     = (Inr (''Payment confirmed successfully'', paid_order), paid_shop)
   \<and> map_of (orders shop_after_checkout) (cf_orderId confirmation) = Some placed_order
   \<and> pay_status (o_payment placed_order) \<noteq> PaymentCompleted \<and> o_status placed_order \<noteq> Processing
   \<and> confirmPayment intent_succeeded 9 confirmation paid_shop
     = (Inr (''Order is already paid'', paid_order), paid_shop)
   \<and> o_statusHistory paid_order = o_statusHistory placed_order @
        [\<lparr>h_status = Processing, h_timestamp = 8, h_note = None\<rparr>]
   \<and> handleWebhook (verified_as (payment_event ''payment_intent.succeeded'' ''0000000000000000000000a1''))
        8 signed_request shop_after_checkout = (Inr Received, paid_shop)
   \<and> handleWebhook (verified_as (payment_event ''payment_intent.succeeded'' ''0000000000000000000000a1''))
        9 signed_request paid_shop = (Inr Received, paid_shop)
   \<and> map_of (orders paid_shop) ''0000000000000000000000a1'' = Some paid_order
   \<and> pay_status (o_payment paid_order) = PaymentCompleted"
proof -
  have a: "map_of (orders shop_after_checkout) (cf_orderId confirmation) = Some placed_order"
    by (simp add: shop_after_checkout_def confirmation_def)
  have b: "pay_status (o_payment placed_order) \<noteq> PaymentCompleted \<and> o_status placed_order \<noteq> Processing"
    by (simp add: placed_order_def)
  have c: "w_signature signed_request \<noteq> []
     \<and> verified_as (payment_event ''payment_intent.succeeded'' ''0000000000000000000000a1'')
          (w_body signed_request) (w_signature signed_request)
        = Some (payment_event ''payment_intent.succeeded'' ''0000000000000000000000a1'')
     \<and> e_type (payment_event ''payment_intent.succeeded'' ''0000000000000000000000a1'')
        = ''payment_intent.succeeded''"
    by (simp add: signed_request_def verified_as_def payment_event_def)
  have d: "map_of (orders paid_shop) ''0000000000000000000000a1'' = Some paid_order
     \<and> pay_status (o_payment paid_order) = PaymentCompleted"
    by (simp add: paid_shop_def paid_order_def)
  show ?thesis
    using payment_confirmation_idempotent
      [where getPaymentIntent = intent_succeeded and now = 8 and now' = 9 and req = confirmation
         and s = shop_after_checkout and s' = paid_shop and order = paid_order
         and message = "''Payment confirmed successfully''"
         and wreq = signed_request
         and constructWebhookEvent = "verified_as (payment_event ''payment_intent.succeeded'' ''0000000000000000000000a1'')"
         and ev = "payment_event ''payment_intent.succeeded'' ''0000000000000000000000a1''"
         and response = "Inr Received" and ?s1.0 = paid_shop]
      confirmation_of_the_scenario succeeded_webhook_of_the_scenario a b c d
    by simp
qed

text \<open>
  The handlers of \<^verbatim>\<open>payment_intent.payment_failed\<close> and \<^verbatim>\<open>payment_intent.canceled\<close>
  mark the payment of the order they name as failed, whatever its status was.
\<close>

lemma failed_event_marks_failed:
  assumes "e_type ev = ''payment_intent.payment_failed'' \<or> e_type ev = ''payment_intent.canceled''"
    and "e_orderId ev = Some oid" and "oid \<noteq> []" and "isValid oid"
    and "map_of (orders s) oid = Some order"
  shows "process_event now ev s =
     (None, s\<lparr>orders := AList.update oid
                 (order\<lparr>o_payment := (o_payment order)\<lparr>pay_status := PaymentFailed\<rparr>\<rparr>) (orders s)\<rparr>)"
proof -
  from assms have "event_order ev s = Inr (Some (oid, order))" by (simp add: event_order_Some)
  with assms(1) show ?thesis
    by (auto simp: process_event_def save_order_def Let_def)
qed

text \<open>
  C5 at a concrete order: the payment of the example's order is completed; a verified
  \<^verbatim>\<open>payment_intent.payment_failed\<close> event for it, and likewise a
  \<^verbatim>\<open>payment_intent.canceled\<close> event, is acknowledged and leaves the payment status
  \<^verbatim>\<open>failed\<close>.
\<close>

theorem failed_webhook_overwrites_completed_payment:
  "map_option (\<lambda>order. pay_status (o_payment order))
      (map_of (orders paid_shop) ''0000000000000000000000a1'') = Some PaymentCompleted
   \<and> handleWebhook (verified_as (payment_event ''payment_intent.payment_failed'' ''0000000000000000000000a1''))
        9 signed_request paid_shop
      = (Inr Received,
         paid_shop\<lparr>orders := [(''0000000000000000000000a1'',
             paid_order\<lparr>o_payment := (o_payment paid_order)\<lparr>pay_status := PaymentFailed\<rparr>\<rparr>)]\<rparr>)
   \<and> handleWebhook (verified_as (payment_event ''payment_intent.canceled'' ''0000000000000000000000a1''))
        9 signed_request paid_shop
      = (Inr Received,
         paid_shop\<lparr>orders := [(''0000000000000000000000a1'',
             paid_order\<lparr>o_payment := (o_payment paid_order)\<lparr>pay_status := PaymentFailed\<rparr>\<rparr>)]\<rparr>)"
  by (simp add: handleWebhook_def process_event_def event_order_def Order_findById_def
      isValid_example signed_request_def verified_as_def payment_event_def
      save_order_def paid_order_def paid_shop_def Let_def)

lemma process_event_error:
  "fst (process_event now ev s) = Some e
     \<longleftrightarrow> e_type ev \<in> {''payment_intent.succeeded'', ''payment_intent.payment_failed'',
                        ''payment_intent.canceled''}
         \<and> (\<exists>oid. e_orderId ev = Some oid \<and> oid \<noteq> [] \<and> \<not> isValid oid \<and> e = CastError oid)"
proof (cases "event_order ev s")
  case (Inl e')
  then show ?thesis
    using event_order_Inl[of ev s e']
    by (auto simp: process_event_def split: option.splits prod.splits)
next
  case (Inr x)
  then have "\<And>e. event_order ev s \<noteq> Inl e" by simp
  with Inr show ?thesis
    using event_order_Inl[of ev s]
    by (auto simp: process_event_def split: option.splits prod.splits)
qed

text \<open>
  C7, as the claim states it, fails: a verified \<^verbatim>\<open>payment_intent.succeeded\<close> event whose
  metadata carries \<^verbatim>\<open>'pending'\<close> as order id (the value \<^verbatim>\<open>createPaymentIntent\<close> writes
  when the intent is created without an order) makes \<^verbatim>\<open>Order.findById\<close> throw, and the
  handler answers 400.
\<close>

theorem webhook_processing_error_counterexample:
  "handleWebhook (verified_as (payment_event ''payment_intent.succeeded'' ''pending''))
      9 signed_request paid_shop = (Inr Webhook_processing_failed, paid_shop)
   \<and> response_status Webhook_processing_failed = 400"
  by (simp add: handleWebhook_def process_event_def event_order_def Order_findById_def
      isValid_def signed_request_def verified_as_def payment_event_def)

text \<open>
  C7, amended. The handler answers \<^verbatim>\<open>{ received: true }\<close> exactly when the signature
  header is present, the verification gives an event and the processing of the event
  does not throw; it answers 400 when the verification fails and also when the
  processing throws, which is the case exactly for a payment-intent event whose
  metadata names an order id that is no \<^verbatim>\<open>ObjectId\<close>; a missing signature header is
  thrown as an error. A verified event of an unrecognized type is acknowledged and
  changes nothing.
\<close>

theorem handleWebhook_acknowledges_unless_it_throws:
  "(fst (handleWebhook constructWebhookEvent now req s) = Inr Received
      \<longleftrightarrow> w_signature req \<noteq> []
          \<and> (\<exists>ev. constructWebhookEvent (w_body req) (w_signature req) = Some ev
                \<and> fst (process_event now ev s) = None))
   \<and> (fst (handleWebhook constructWebhookEvent now req s) = Inr Webhook_processing_failed
      \<longleftrightarrow> w_signature req \<noteq> []
          \<and> (constructWebhookEvent (w_body req) (w_signature req) = None
              \<or> (\<exists>ev e. constructWebhookEvent (w_body req) (w_signature req) = Some ev
                    \<and> fst (process_event now ev s) = Some e)))
   \<and> (fst (handleWebhook constructWebhookEvent now req s) = Inl e
      \<longleftrightarrow> w_signature req = [] \<and> e = Missing_Stripe_signature)
   \<and> (fst (process_event now ev s) = Some e'
      \<longleftrightarrow> e_type ev \<in> {''payment_intent.succeeded'', ''payment_intent.payment_failed'',
                        ''payment_intent.canceled''}
          \<and> (\<exists>oid. e_orderId ev = Some oid \<and> oid \<noteq> [] \<and> \<not> isValid oid \<and> e' = CastError oid))
   \<and> (w_signature req \<noteq> [] \<and> constructWebhookEvent (w_body req) (w_signature req) = Some ev
        \<and> e_type ev \<notin> {''payment_intent.succeeded'', ''payment_intent.payment_failed'',
                        ''payment_intent.canceled'', ''charge.refunded''}
      \<longrightarrow> handleWebhook constructWebhookEvent now req s = (Inr Received, s))
   \<and> response_status Received = 200 \<and> response_status Webhook_processing_failed = 400
   \<and> statusCode Missing_Stripe_signature = 400"
proof (intro conjI)
  show "fst (handleWebhook constructWebhookEvent now req s) = Inr Received
      \<longleftrightarrow> w_signature req \<noteq> []
          \<and> (\<exists>ev. constructWebhookEvent (w_body req) (w_signature req) = Some ev
                \<and> fst (process_event now ev s) = None)"
    by (auto simp: handleWebhook_def split: option.splits prod.splits)
  show "fst (handleWebhook constructWebhookEvent now req s) = Inr Webhook_processing_failed
      \<longleftrightarrow> w_signature req \<noteq> []
          \<and> (constructWebhookEvent (w_body req) (w_signature req) = None
              \<or> (\<exists>ev e. constructWebhookEvent (w_body req) (w_signature req) = Some ev
                    \<and> fst (process_event now ev s) = Some e))"
    by (auto simp: handleWebhook_def split: option.splits prod.splits)
  show "fst (handleWebhook constructWebhookEvent now req s) = Inl e
      \<longleftrightarrow> w_signature req = [] \<and> e = Missing_Stripe_signature"
    by (auto simp: handleWebhook_def split: option.splits prod.splits)
  show "fst (process_event now ev s) = Some e'
      \<longleftrightarrow> e_type ev \<in> {''payment_intent.succeeded'', ''payment_intent.payment_failed'',
                        ''payment_intent.canceled''}
          \<and> (\<exists>oid. e_orderId ev = Some oid \<and> oid \<noteq> [] \<and> \<not> isValid oid \<and> e' = CastError oid)"
    by (rule process_event_error)
  show "w_signature req \<noteq> [] \<and> constructWebhookEvent (w_body req) (w_signature req) = Some ev
        \<and> e_type ev \<notin> {''payment_intent.succeeded'', ''payment_intent.payment_failed'',
                        ''payment_intent.canceled'', ''charge.refunded''}
      \<longrightarrow> handleWebhook constructWebhookEvent now req s = (Inr Received, s)"
    by (simp add: handleWebhook_def process_event_def)
qed simp_all

theorem handleWebhook_acknowledges_unless_it_throws_witness:
  "w_signature signed_request \<noteq> []
   \<and> verified_as (payment_event ''customer.created'' ''pending'')
        (w_body signed_request) (w_signature signed_request)
      = Some (payment_event ''customer.created'' ''pending'')
   \<and> e_type (payment_event ''customer.created'' ''pending'')
        \<notin> {''payment_intent.succeeded'', ''payment_intent.payment_failed'',
            ''payment_intent.canceled'', ''charge.refunded''}
   \<and> handleWebhook (verified_as (payment_event ''customer.created'' ''pending''))
        9 signed_request paid_shop = (Inr Received, paid_shop)"
  using handleWebhook_acknowledges_unless_it_throws
    [where req = signed_request and ev = "payment_event ''customer.created'' ''pending''"
       and constructWebhookEvent = "verified_as (payment_event ''customer.created'' ''pending'')"
       and now = 9 and s = paid_shop]
  by (simp add: signed_request_def verified_as_def payment_event_def)


section \<open>The total of an order\<close>














lemma totals_current_iff: "totals_current c \<longleftrightarrow> calculateTotals c = c"
proof
  assume cur: "totals_current c"
  then have s: "c\<lparr>c_subtotal := foldl (\<lambda>total item. total + i_subtotal item) 0 (c_items c)\<rparr> = c"
    by (simp add: totals_current_def foldl_subtotal)
  have t: "map_option (\<lambda>t. t\<lparr>t_amount := taxAmount c\<rparr>) (c_tax c) = c_tax c"
    using cur by (cases "c_tax c") (simp_all add: totals_current_def)
  have "c\<lparr>c_tax := c_tax c\<rparr> = c" by simp
  with cur show "calculateTotals c = c"
    by (simp add: calculateTotals_def Let_def s t totals_current_def)
next
  assume "calculateTotals c = c"
  with calculateTotals_current[of c] show "totals_current c" by simp
qed







section \<open>Checkouts in flight\<close>


lemma steps_Finished [simp]: "steps n k (Finished r, s) = (Finished r, s)"
  by (induction n) simp_all

lemma steps_add: "steps (m + n) k x = steps n k (steps m k x)"
proof (induction m arbitrary: x)
  case 0
  then show ?case by simp
next
  case (Suc m)
  then show ?case by (cases x) simp
qed

lemma steps_Checking:
  "steps (length items) k (Checking u cart items, s) =
     (case check_inventory s items of
        Some e \<Rightarrow> (Finished (Inl e), s)
      | None \<Rightarrow> (Checking u cart [], s))"
  by (induction items) (auto split: option.splits sum.splits)

lemma steps_Loading:
  "steps (2 * length items + 1) k (Loading order cart items, s) =
     (case update_inventory items s of
        (Some e, s') \<Rightarrow> (Finished (Inl e), s')
      | (None, s') \<Rightarrow>
          (case save_cart (r_cartId (k_request k)) (clearCart cart) s' of
             (Some e, s'') \<Rightarrow> (Finished (Inl e), s'')
           | (None, s'') \<Rightarrow> (Finished (Inr order), s'')))"
proof (induction items arbitrary: s)
  case Nil
  then show ?case by (simp split: prod.splits option.splits)
next
  case (Cons item rest)
  show ?case
  proof (cases "map_of (products s) (i_product item)")
    case None
    have "steps (2 * length (item # rest) + 1) k (Loading order cart (item # rest), s)
        = steps 1 k (steps (2 * length rest + 1) k (Loading order cart rest, s))"
      using None steps_add[of "2 * length rest + 1" 1 k "(Loading order cart rest, s)"] by simp
    also have "\<dots> = steps (2 * length rest + 1) k (Loading order cart rest, s)"
      unfolding Cons.IH by (simp split: prod.splits option.splits)
    finally show ?thesis using None Cons.IH by simp
  next
    case (Some product)
    obtain e s' where sp: "save_product (i_product item) (i_variant item)
        (adjust_inventory (i_variant item) (- i_quantity item) product) s = (e, s')"
      by (cases "save_product (i_product item) (i_variant item)
        (adjust_inventory (i_variant item) (- i_quantity item) product) s")
    show ?thesis
      using Some sp Cons.IH[of s'] by (cases e) simp_all
  qed
qed


lemma steps_createOrder:
  "\<exists>n. steps n k (Start, s)
     = (Finished (fst (createOrder (k_new_id k) (k_orderNumber k) (k_now k) (k_request k) s)),
        snd (createOrder (k_new_id k) (k_orderNumber k) (k_now k) (k_request k) s))"
proof -
  let ?r = "createOrder (k_new_id k) (k_orderNumber k) (k_now k) (k_request k) s"
  have "step k Start s = (Finished (fst ?r), snd ?r)
      \<or> (\<exists>u cart. step k Start s = (Checking u cart (c_items cart), s)
            \<and> ?r = (case check_inventory s (c_items cart) of
                      Some e \<Rightarrow> (Inl e, s)
                    | None \<Rightarrow> place_order (k_new_id k) (k_orderNumber k) (k_now k) u
                               (k_request k) cart s))"
    by (cases "isValid (r_cartId (k_request k))";
        cases "map_of (carts s) (r_cartId (k_request k))";
        cases "r_user (k_request k)")
      (simp_all add: createOrder_def)
  then consider (early) "step k Start s = (Finished (fst ?r), snd ?r)"
    | (checks) u cart where "step k Start s = (Checking u cart (c_items cart), s)"
        "?r = (case check_inventory s (c_items cart) of
                 Some e \<Rightarrow> (Inl e, s)
               | None \<Rightarrow> place_order (k_new_id k) (k_orderNumber k) (k_now k) u (k_request k) cart s)"
    by blast
  then show ?thesis
  proof cases
    case early
    then have "steps 1 k (Start, s) = (Finished (fst ?r), snd ?r)" by simp
    then show ?thesis by blast
  next
    case checks
    let ?items = "c_items cart"
    have s1: "steps 1 k (Start, s) = (Checking u cart ?items, s)"
      using checks(1) by simp
    show ?thesis
    proof (cases "check_inventory s ?items")
      case (Some e)
      have s2: "steps (length ?items) k (Checking u cart ?items, s) = (Finished (Inl e), s)"
        using Some steps_Checking[of ?items k u cart s] by simp
      have "steps (1 + length ?items) k (Start, s) = (Finished (Inl e), s)"
        by (simp only: steps_add s1 s2)
      moreover have "?r = (Inl e, s)" using checks(2) Some by simp
      ultimately show ?thesis by (metis fst_conv snd_conv)
    next
      case None
      have s2: "steps (length ?items) k (Checking u cart ?items, s) = (Checking u cart [], s)"
        using None steps_Checking[of ?items k u cart s] by simp
      have s3: "steps 1 k (Checking u cart [], s) = (Creating u cart, s)"
        by simp
      have r: "?r = place_order (k_new_id k) (k_orderNumber k) (k_now k) u (k_request k) cart s"
        using checks(2) None by simp
      show ?thesis
      proof (cases "r_shippingMethod (k_request k)")
        case None
        have s4: "steps 1 k (Creating u cart, s) = (Finished (Inl TypeError), s)"
          using None by simp
        have "steps (1 + length ?items + 1 + 1) k (Start, s) = (Finished (Inl TypeError), s)"
          by (simp only: steps_add s1 s2 s3 s4)
        moreover have "?r = (Inl TypeError, s)" using r None by (simp add: place_order_def)
        ultimately show ?thesis by (metis fst_conv snd_conv)
      next
        case (Some shippingMethod)
        obtain res s' where oc: "Order_create (k_new_id k) (k_now k)
            (new_order (k_orderNumber k) u (k_request k) shippingMethod cart) s = (res, s')"
          by (cases "Order_create (k_new_id k) (k_now k)
            (new_order (k_orderNumber k) u (k_request k) shippingMethod cart) s")
        show ?thesis
        proof (cases res)
          case (Inl e)
          have s4: "steps 1 k (Creating u cart, s) = (Finished (Inl e), s')"
            using Some oc Inl by simp
          have "steps (1 + length ?items + 1 + 1) k (Start, s) = (Finished (Inl e), s')"
            by (simp only: steps_add s1 s2 s3 s4)
          moreover have "?r = (Inl e, s')" using r Some oc Inl by (simp add: place_order_def)
          ultimately show ?thesis by (metis fst_conv snd_conv)
        next
          case (Inr order)
          have s4: "steps 1 k (Creating u cart, s) = (Loading order cart ?items, s')"
            using Some oc Inr by simp
          have s5: "steps (2 * length ?items + 1) k (Loading order cart ?items, s')
              = (Finished (fst ?r), snd ?r)"
            unfolding steps_Loading using r Some oc Inr
            by (simp add: place_order_def split: prod.splits option.splits)
          have s6: "steps (1 + length ?items + 1 + 1) k (Start, s) = (Loading order cart ?items, s')"
            by (simp only: steps_add s1 s2 s3 s4)
          have "steps (1 + length ?items + 1 + 1 + (2 * length ?items + 1)) k (Start, s)
              = (Finished (fst ?r), snd ?r)"
            by (simp only: steps_add[of "1 + length ?items + 1 + 1" "2 * length ?items + 1"] s6 s5)
          then show ?thesis by blast
        qed
      qed
    qed
  qed
qed


text \<open>
  The validators keep every stored inventory non-negative, in whatever order two requests
  take their turns.
\<close>

lemma findIndex_Some: "findIndex P xs = Some i \<Longrightarrow> i < length xs \<and> P (xs ! i)"
proof (induction xs arbitrary: i)
  case Nil
  then show ?case by simp
next
  case (Cons x xs)
  then show ?case by (cases "P x") auto
qed

lemma list_all_update:
  "list_all Q xs \<Longrightarrow> (i < length xs \<Longrightarrow> Q y) \<Longrightarrow> list_all Q (xs[i := y])"
  by (induction xs arbitrary: i) (auto split: nat.splits)

lemma write_inventory_valid:
  assumes "inventory_valid p" and "inventory_valid stored"
  shows "inventory_valid (write_inventory v p stored)"
proof (cases "named_variant v")
  case None
  with assms show ?thesis by (simp add: write_inventory_def inventory_valid_def)
next
  case (Some vid)
  show ?thesis
  proof (cases "findIndex (\<lambda>w. pv_id w = vid) (p_variants p)")
    case None
    with Some assms show ?thesis by (simp add: write_inventory_def)
  next
    case (Some i)
    from findIndex_Some[OF this] have "i < length (p_variants p)" by simp
    with assms(1) have "0 \<le> pv_inventory (p_variants p ! i)"
      by (simp add: inventory_valid_def list_all_length)
    with assms(2) Some \<open>named_variant v = Some vid\<close> show ?thesis
      by (auto simp: write_inventory_def inventory_valid_def intro!: list_all_update)
  qed
qed

lemma list_all_AList_update:
  "list_all Q al \<Longrightarrow> Q (k, v) \<Longrightarrow> list_all Q (AList.update k v al)"
  by (induction al) auto

lemma save_product_valid:
  assumes "list_all (\<lambda>(pid, p). inventory_valid p) (products s)"
  shows "list_all (\<lambda>(pid, p). inventory_valid p) (products (snd (save_product pid v p s)))"
proof (cases "inventory_valid p")
  case False
  with assms show ?thesis by (simp add: save_product_def)
next
  case True
  show ?thesis
  proof (cases "map_of (products s) pid")
    case None
    with assms show ?thesis by (simp add: save_product_def)
  next
    case (Some stored)
    then have "(pid, stored) \<in> set (products s)" by (rule map_of_SomeD)
    with assms have "inventory_valid stored" by (auto simp: list_all_iff)
    from write_inventory_valid[OF True this, of v] assms Some True show ?thesis
      by (simp add: save_product_def list_all_AList_update)
  qed
qed

lemma step_valid:
  assumes "list_all (\<lambda>(pid, p). inventory_valid p) (products s)"
  shows "list_all (\<lambda>(pid, p). inventory_valid p) (products (snd (step k c s)))"
proof (cases c)
  case Start
  with assms show ?thesis by (simp split: option.splits)
next
  case (Checking u cart items)
  with assms show ?thesis by (cases items) (simp_all split: option.splits sum.splits)
next
  case (Creating u cart)
  with assms show ?thesis
    by (auto simp: Order_create_def Let_def split: option.splits prod.splits sum.splits if_splits)
next
  case (Loading order cart items)
  with assms show ?thesis
    by (cases items) (auto simp: save_cart_def split: option.splits prod.splits if_splits)
next
  case (Saving order cart item product rest)
  have "snd (step k c s) = snd (save_product (i_product item) (i_variant item) product s)"
    using Saving by (simp split: prod.splits option.splits)
  with save_product_valid[OF assms] show ?thesis by simp
next
  case (Finished r)
  with assms show ?thesis by simp
qed

lemma run_valid:
  assumes "list_all (\<lambda>(pid, p). inventory_valid p) (products s)"
  shows "list_all (\<lambda>(pid, p). inventory_valid p) (products (snd (snd (run turns ka kb (a, b, s)))))"
  using assms
proof (induction turns arbitrary: a b s)
  case Nil
  then show ?case by simp
next
  case (Cons t turns)
  show ?case
  proof (cases t)
    case A
    obtain a' s' where st: "step ka a s = (a', s')" by (cases "step ka a s")
    with step_valid[OF Cons.prems, of ka a] have "list_all (\<lambda>(pid, p). inventory_valid p) (products s')"
      by simp
    from Cons.IH[OF this] A st show ?thesis by simp
  next
    case B
    obtain b' s' where st: "step kb b s = (b', s')" by (cases "step kb b s")
    with step_valid[OF Cons.prems, of kb b] have "list_all (\<lambda>(pid, p). inventory_valid p) (products s')"
      by simp
    from Cons.IH[OF this] B st show ?thesis by simp
  qed
qed



end
